theory Spec2Isabelle
  imports Main "HOL-Library.Word"
begin

section \<open>AnonymousCopyrightV2: data model\<close>

text \<open>
  A shallow embedding of \<^verbatim>\<open>contracts/AnonymousCopyrightV2.sol\<close>. Solidity's unsigned
  integers are words of their width; a mapping is a total function whose default is the
  zero value of its range; a dynamic storage array is a list; a reverted call is an
  \<open>Inl\<close> value and leaves the caller with the state it had.
\<close>

type_synonym uint256 = "256 word"
type_synonym uint64 = "64 word"
type_synonym uint32 = "32 word"
type_synonym address = "160 word"
type_synonym bytes = "8 word list"
type_synonym bytes32 = "256 word"

text \<open>
  The encrypted types \<^verbatim>\<open>euint32\<close>, \<^verbatim>\<open>euint64\<close> and \<^verbatim>\<open>ebool\<close> of the FHE library are
  32-byte handles; the contract only stores them and passes them on. The library's
  permission calls (\<^verbatim>\<open>FHE.allow\<close>, \<^verbatim>\<open>FHE.allowThis\<close>) write to no storage of the contract
  and are left out.
\<close>

type_synonym euint32 = bytes32
type_synonym euint64 = bytes32
type_synonym ebool = bytes32

subsection \<open>Constants\<close>

definition MIN_REGISTRATION_FEE :: uint256 where
  "MIN_REGISTRATION_FEE = 1000000000000000"

definition MAX_TITLE_LENGTH :: nat where
  "MAX_TITLE_LENGTH = 200"

definition MAX_CATEGORY_LENGTH :: nat where
  "MAX_CATEGORY_LENGTH = 100"

definition VERIFICATION_TIMEOUT :: uint256 where
  "VERIFICATION_TIMEOUT = 3600"

definition DISPUTE_TIMEOUT :: uint256 where
  "DISPUTE_TIMEOUT = 86400"

definition MAX_DISPUTES_PER_WORK :: uint256 where
  "MAX_DISPUTES_PER_WORK = 10"

definition DISPUTE_DEPOSIT :: uint256 where
  "DISPUTE_DEPOSIT = 5000000000000000"

definition PRIVACY_MULTIPLIER_MIN :: uint64 where
  "PRIVACY_MULTIPLIER_MIN = 1000"

definition PRIVACY_MULTIPLIER_MAX :: uint64 where
  "PRIVACY_MULTIPLIER_MAX = 9999"

subsection \<open>Structs\<close>

record OriginalWork =
  encryptedContentHash :: euint32
  w_encryptedAuthorId :: euint64
  privacyNonce :: euint64
  registrant :: address
  w_timestamp :: uint256
  registrationFeeAmount :: uint256
  verified :: bool
  disputed :: bool
  disputeCount :: uint256
  workTitle :: string
  category :: string

record DisputeRecord =
  challenger :: address
  challengerContentHash :: euint32
  d_timestamp :: uint256
  d_depositAmount :: uint256
  resolved :: bool
  winner :: address
  decryptionRequestId :: uint256
  d_requestTimestamp :: uint256

record AuthorProfile =
  a_encryptedAuthorId :: euint64
  privacyMultiplier :: euint64
  registered :: bool
  workCount :: uint256
  totalDisputes :: uint256
  wonDisputes :: uint256
  registrationTime :: uint256

record VerificationRequest =
  requester :: address
  v_workId :: uint256
  v_requestId :: uint256
  v_depositAmount :: uint256
  v_requestTimestamp :: uint256
  completed :: bool
  refunded :: bool

datatype DecryptionType = Verification | DisputeResolution

record PendingDecryption =
  p_workId :: uint256
  p_disputeId :: uint256
  decryptionType :: DecryptionType
  initiator :: address
  p_timestamp :: uint256

text \<open>The zero values that an unwritten mapping entry reads as.\<close>

definition zero_work :: OriginalWork where
  "zero_work = \<lparr>encryptedContentHash = 0, w_encryptedAuthorId = 0, privacyNonce = 0,
     registrant = 0, w_timestamp = 0, registrationFeeAmount = 0, verified = False,
     disputed = False, disputeCount = 0, workTitle = [], category = []\<rparr>"

definition zero_author :: AuthorProfile where
  "zero_author = \<lparr>a_encryptedAuthorId = 0, privacyMultiplier = 0, registered = False,
     workCount = 0, totalDisputes = 0, wonDisputes = 0, registrationTime = 0\<rparr>"

definition zero_request :: VerificationRequest where
  "zero_request = \<lparr>requester = 0, v_workId = 0, v_requestId = 0, v_depositAmount = 0,
     v_requestTimestamp = 0, completed = False, refunded = False\<rparr>"

definition zero_pending :: PendingDecryption where
  "zero_pending = \<lparr>p_workId = 0, p_disputeId = 0, decryptionType = Verification,
     initiator = 0, p_timestamp = 0\<rparr>"

subsection \<open>Events and errors\<close>

datatype event =
    WorkRegistered uint256 address string uint256 uint256
  | WorkVerified uint256 address
  | DisputeFiled uint256 address uint256 uint256
  | DisputeResolved uint256 uint256 address uint256
  | AuthorRegistered address uint256
  | VerificationRequested uint256 address uint256 uint256
  | VerificationCompleted uint256 uint256 bool
  | DecryptionRequested uint256 DecryptionType uint256
  | RefundIssued address uint256 string
  | TimeoutRefund address uint256 uint256
  | PlatformFeesWithdrawn address uint256
  | EmergencyPause address
  | Unpaused address
  | RegistrationFeeUpdated uint256 uint256

text \<open>
  \<open>Revert msg\<close> is a failed \<^verbatim>\<open>require\<close> with its message; \<open>Overflow\<close> and \<open>OutOfBounds\<close>
  are the panics of checked arithmetic and of array indexing; \<open>DecodeError\<close> is the
  revert of \<^verbatim>\<open>abi.decode\<close> on malformed data; \<open>InvalidSignatures\<close> is the revert of
  \<^verbatim>\<open>FHE.checkSignatures\<close>.
\<close>

datatype error = Revert string | Overflow | OutOfBounds | DecodeError | InvalidSignatures

subsection \<open>Contract storage\<close>

text \<open>
  The storage variables of the contract, its ether balance (\<open>this_balance\<close>) and the log
  of emitted events. The mapping \<^verbatim>\<open>workIdByRequestId\<close> is never read or written by the
  contract and is left out.
\<close>

record state =
  owner :: address
  workCounter :: uint256
  registrationFee :: uint256
  paused :: bool
  isTesting :: bool
  platformFees :: uint256
  works :: "uint256 \<Rightarrow> OriginalWork"
  disputes :: "uint256 \<Rightarrow> DisputeRecord list"
  authors :: "address \<Rightarrow> AuthorProfile"
  authorWorks :: "address \<Rightarrow> uint256 list"
  verificationRequests :: "uint256 \<Rightarrow> VerificationRequest"
  pendingDecryptions :: "uint256 \<Rightarrow> PendingDecryption"
  pendingRefunds :: "address \<Rightarrow> uint256"
  verificationRequestCounter :: uint256
  locked :: bool
  this_balance :: uint256
  events :: "event list"

text \<open>
  What a call sees of its transaction and of the world outside the contract: the caller,
  the block, the hash function, the FHE library (which is not part of this repository's
  sources and is taken as a parameter), and \<open>recipient\<close>, the code that runs at the
  target of an outbound \<^verbatim>\<open>call{value: ...}("")\<close>. The recipient is given the address and
  amount of the transfer and the contract state at that moment; it answers whether it
  accepted and what state it left behind (it may have called back into the contract).
\<close>

record env =
  msg_sender :: address
  block_timestamp :: uint256
  block_prevrandao :: uint256
  keccak256 :: "bytes \<Rightarrow> uint256"
  fhe_asEuint32 :: "uint32 \<Rightarrow> euint32"
  fhe_asEuint64 :: "uint64 \<Rightarrow> euint64"
  fhe_eq :: "euint32 \<Rightarrow> euint32 \<Rightarrow> ebool"
  fhe_requestDecryption :: "bytes32 list \<Rightarrow> uint256"
  fhe_checkSignatures :: "uint256 \<Rightarrow> bytes \<Rightarrow> bytes \<Rightarrow> bool"
  recipient :: "address \<Rightarrow> uint256 \<Rightarrow> state \<Rightarrow> bool \<times> state"

section \<open>Language primitives\<close>

definition emit :: "event \<Rightarrow> state \<Rightarrow> state" where
  "emit e s = s\<lparr>events := events s @ [e]\<rparr>"

text \<open>Checked arithmetic of Solidity 0.8: an overflowing addition panics.\<close>

definition checked_add :: "uint256 \<Rightarrow> uint256 \<Rightarrow> error + uint256" where
  "checked_add a b = (if unat a + unat b < 2 ^ 256 then Inr (a + b) else Inl Overflow)"

definition and_then :: "error + 'a \<Rightarrow> ('a \<Rightarrow> error + 'b) \<Rightarrow> error + 'b" where
  "and_then r k = (case r of Inl e \<Rightarrow> Inl e | Inr v \<Rightarrow> k v)"

text \<open>
  A payable function is entered with the value already added to the contract's balance.
\<close>

definition receive_value :: "uint256 \<Rightarrow> state \<Rightarrow> state" where
  "receive_value v s = s\<lparr>this_balance := this_balance s + v\<rparr>"

text \<open>
  \<^verbatim>\<open>payable(to).call{value: amount}("")\<close>: fails without effect when the balance is too
  small or the recipient rejects; otherwise the amount leaves the balance and the
  recipient's code runs on the state as it is at that moment.
\<close>

definition call_value :: "env \<Rightarrow> address \<Rightarrow> uint256 \<Rightarrow> state \<Rightarrow> bool \<times> state" where
  "call_value env to amount s =
     (if this_balance s < amount then (False, s)
      else (case recipient env to amount (s\<lparr>this_balance := this_balance s - amount\<rparr>) of
              (True, s') \<Rightarrow> (True, s')
            | (False, _) \<Rightarrow> (False, s)))"

text \<open>Big-endian reading and writing of byte strings, for the ABI.\<close>

definition be_nat :: "bytes \<Rightarrow> nat" where
  "be_nat bs = foldl (\<lambda>acc b. acc * 256 + unat b) 0 bs"

definition be_bytes :: "nat \<Rightarrow> nat \<Rightarrow> bytes" where
  "be_bytes n v = map (\<lambda>i. of_nat (v div 256 ^ i)) (rev [0..<n])"

definition abi_word :: "bytes \<Rightarrow> nat \<Rightarrow> nat" where
  "abi_word bs i = be_nat (take 32 (drop (32 * i) bs))"

text \<open>
  \<^verbatim>\<open>abi.decode(cleartexts, (bool))\<close> reverts on fewer than 32 bytes and on a first word
  other than 0 or 1.
\<close>

definition abi_decode_bool :: "bytes \<Rightarrow> error + bool" where
  "abi_decode_bool bs =
     (if length bs < 32 then Inl DecodeError
      else if abi_word bs 0 = 0 then Inr False
      else if abi_word bs 0 = 1 then Inr True
      else Inl DecodeError)"

text \<open>
  \<^verbatim>\<open>abi.decode(cleartexts, (uint32, uint32))\<close> reverts on fewer than 64 bytes and on a
  word that does not fit 32 bits.
\<close>

definition abi_decode_uint32_pair :: "bytes \<Rightarrow> error + (uint32 \<times> uint32)" where
  "abi_decode_uint32_pair bs =
     (if length bs < 64 then Inl DecodeError
      else if abi_word bs 0 < 2 ^ 32 \<and> abi_word bs 1 < 2 ^ 32
        then Inr (of_nat (abi_word bs 0), of_nat (abi_word bs 1))
      else Inl DecodeError)"

section \<open>Modifiers\<close>

definition onlyOwner :: "env \<Rightarrow> (state \<Rightarrow> error + 'a) \<Rightarrow> state \<Rightarrow> error + 'a" where
  "onlyOwner env body s =
     (if msg_sender env = owner s then body s else Inl (Revert ''AC: Not authorized''))"

definition whenNotPaused :: "(state \<Rightarrow> error + 'a) \<Rightarrow> state \<Rightarrow> error + 'a" where
  "whenNotPaused body s =
     (if \<not> paused s then body s else Inl (Revert ''AC: Contract paused''))"

definition onlyRegisteredAuthor :: "env \<Rightarrow> (state \<Rightarrow> error + 'a) \<Rightarrow> state \<Rightarrow> error + 'a" where
  "onlyRegisteredAuthor env body s =
     (if registered (authors s (msg_sender env)) then body s
      else Inl (Revert ''AC: Author not registered''))"

definition validWorkId :: "uint256 \<Rightarrow> (state \<Rightarrow> error + 'a) \<Rightarrow> state \<Rightarrow> error + 'a" where
  "validWorkId workId' body s =
     (if workId' > 0 \<and> workId' \<le> workCounter s then body s
      else Inl (Revert ''AC: Invalid work ID''))"

definition noReentrancy :: "(state \<Rightarrow> error + state) \<Rightarrow> state \<Rightarrow> error + state" where
  "noReentrancy body s =
     (if \<not> locked s
      then (case body (s\<lparr>locked := True\<rparr>) of
              Inl e \<Rightarrow> Inl e
            | Inr s' \<Rightarrow> Inr (s'\<lparr>locked := False\<rparr>))
      else Inl (Revert ''AC: Reentrant call''))"

section \<open>Constructor and admin functions\<close>

definition constructor :: "env \<Rightarrow> state" where
  "constructor env =
     \<lparr>owner = msg_sender env, workCounter = 0, registrationFee = MIN_REGISTRATION_FEE,
      paused = False, isTesting = False, platformFees = 0,
      works = (\<lambda>_. zero_work), disputes = (\<lambda>_. []), authors = (\<lambda>_. zero_author),
      authorWorks = (\<lambda>_. []), verificationRequests = (\<lambda>_. zero_request),
      pendingDecryptions = (\<lambda>_. zero_pending), pendingRefunds = (\<lambda>_. 0),
      verificationRequestCounter = 0, locked = False, this_balance = 0, events = []\<rparr>"

definition pause :: "env \<Rightarrow> state \<Rightarrow> error + state" where
  "pause env = onlyOwner env (\<lambda>s.
     Inr (emit (EmergencyPause (msg_sender env)) (s\<lparr>paused := True\<rparr>)))"





section \<open>Registration\<close>

definition registerAuthor :: "env \<Rightarrow> uint64 \<Rightarrow> state \<Rightarrow> error + state" where
  "registerAuthor env authorId' = whenNotPaused (\<lambda>s.
     if \<not> \<not> registered (authors s (msg_sender env)) then Inl (Revert ''AC: Already registered'')
     else if \<not> authorId' > 0 then Inl (Revert ''AC: Invalid author ID'')
     else
       (let encryptedAuthorId = fhe_asEuint64 env authorId';
            digest = keccak256 env
              (be_bytes 32 (unat (block_timestamp env)) @ be_bytes 32 (unat (block_prevrandao env))
               @ be_bytes 20 (unat (msg_sender env)) @ be_bytes 8 (unat authorId'));
            randomMultiplier = (ucast
              (digest mod ucast (PRIVACY_MULTIPLIER_MAX - PRIVACY_MULTIPLIER_MIN + 1)
               + ucast PRIVACY_MULTIPLIER_MIN) :: uint64);
            privacyMultiplier = fhe_asEuint64 env randomMultiplier
        in Inr (emit (AuthorRegistered (msg_sender env) (block_timestamp env))
             (s\<lparr>authors := (authors s)(msg_sender env :=
                  \<lparr>a_encryptedAuthorId = encryptedAuthorId,
                   privacyMultiplier = privacyMultiplier,
                   registered = True, workCount = 0, totalDisputes = 0, wonDisputes = 0,
                   registrationTime = block_timestamp env\<rparr>)\<rparr>))))"

definition registerWork ::
  "env \<Rightarrow> uint256 \<Rightarrow> uint32 \<Rightarrow> string \<Rightarrow> string \<Rightarrow> state \<Rightarrow> error + (uint256 \<times> state)" where
  "registerWork env msg_value contentHash' title' category' s0 =
     onlyRegisteredAuthor env (whenNotPaused (\<lambda>s.
       if \<not> length title' > 0 then Inl (Revert ''AC: Title required'')
       else if \<not> length title' \<le> MAX_TITLE_LENGTH then Inl (Revert ''AC: Title too long'')
       else if \<not> length category' > 0 then Inl (Revert ''AC: Category required'')
       else if \<not> length category' \<le> MAX_CATEGORY_LENGTH
         then Inl (Revert ''AC: Category too long'')
       else if \<not> msg_value \<ge> registrationFee s then Inl (Revert ''AC: Insufficient fee'')
       else if \<not> contentHash' > 0 then Inl (Revert ''AC: Invalid content hash'')
       else if \<not> workCounter s < - 1 then Inl (Revert ''AC: Work counter overflow'')
       else
         and_then (checked_add (workCounter s) 1) (\<lambda>workId.
         let encryptedContentHash = fhe_asEuint32 env contentHash';
             digest = keccak256 env
               (be_bytes 32 (unat (block_timestamp env))
                @ be_bytes 32 (unat (block_prevrandao env))
                @ be_bytes 20 (unat (msg_sender env)) @ be_bytes 32 (unat workId));
             nonce = (ucast (digest mod ucast (- 1 :: uint64)) :: uint64);
             privacyNonce = fhe_asEuint64 env nonce;
             s1 = s\<lparr>workCounter := workId\<rparr>;
             s2 = s1\<lparr>works := (works s1)(workId :=
                    \<lparr>encryptedContentHash = encryptedContentHash,
                     w_encryptedAuthorId = a_encryptedAuthorId (authors s1 (msg_sender env)),
                     privacyNonce = privacyNonce,
                     registrant = msg_sender env,
                     w_timestamp = block_timestamp env,
                     registrationFeeAmount = msg_value,
                     verified = False, disputed = False, disputeCount = 0,
                     workTitle = title', category = category'\<rparr>)\<rparr>;
             s3 = s2\<lparr>authorWorks := (authorWorks s2)(msg_sender env :=
                    authorWorks s2 (msg_sender env) @ [workId])\<rparr>
         in and_then (checked_add (workCount (authors s3 (msg_sender env))) 1) (\<lambda>n.
            let s4 = s3\<lparr>authors := (authors s3)(msg_sender env :=
                       (authors s3 (msg_sender env))\<lparr>workCount := n\<rparr>)\<rparr>
            in and_then (checked_add (platformFees s4) msg_value) (\<lambda>fees.
               Inr (workId,
                    emit (WorkRegistered workId (msg_sender env) title' (block_timestamp env)
                            msg_value)
                      (s4\<lparr>platformFees := fees\<rparr>)))))))
       (receive_value msg_value s0)"

section \<open>Verification with Gateway callback\<close>

text \<open>\<^verbatim>\<open>pendingRefunds[a] += v\<close>.\<close>

definition credit_pendingRefunds :: "address \<Rightarrow> uint256 \<Rightarrow> state \<Rightarrow> error + state" where
  "credit_pendingRefunds a v s =
     and_then (checked_add (pendingRefunds s a) v) (\<lambda>total.
       Inr (s\<lparr>pendingRefunds := (pendingRefunds s)(a := total)\<rparr>))"

definition requestVerifyWork :: "env \<Rightarrow> uint256 \<Rightarrow> uint256 \<Rightarrow> uint32 \<Rightarrow> state \<Rightarrow> error + state" where
  "requestVerifyWork env msg_value workId' contentHashToVerify s0 =
     validWorkId workId' (whenNotPaused (noReentrancy (\<lambda>s.
       if \<not> msg_value \<ge> MIN_REGISTRATION_FEE
         then Inl (Revert ''AC: Verification deposit required'')
       else if \<not> contentHashToVerify > 0 then Inl (Revert ''AC: Invalid content hash'')
       else if \<not> registrant (works s workId') \<noteq> 0 then Inl (Revert ''AC: Work not found'')
       else
         (let encryptedProvidedHash = fhe_asEuint32 env contentHashToVerify;
              isMatch = fhe_eq env (encryptedContentHash (works s workId')) encryptedProvidedHash;
              cts = [isMatch];
              requestId = fhe_requestDecryption env cts
          in and_then (checked_add (verificationRequestCounter s) 1) (\<lambda>n.
             let s1 = s\<lparr>verificationRequestCounter := n\<rparr>;
                 s2 = s1\<lparr>verificationRequests := (verificationRequests s1)(requestId :=
                        \<lparr>requester = msg_sender env, v_workId = workId',
                         v_requestId = requestId, v_depositAmount = msg_value,
                         v_requestTimestamp = block_timestamp env,
                         completed = False, refunded = False\<rparr>)\<rparr>;
                 s3 = s2\<lparr>pendingDecryptions := (pendingDecryptions s2)(requestId :=
                        \<lparr>p_workId = workId', p_disputeId = 0,
                         decryptionType = Verification, initiator = msg_sender env,
                         p_timestamp = block_timestamp env\<rparr>)\<rparr>
             in Inr (emit (DecryptionRequested requestId Verification workId')
                      (emit (VerificationRequested workId' (msg_sender env) requestId msg_value)
                         s3)))))))
       (receive_value msg_value s0)"

text \<open>
  The part shared by \<^verbatim>\<open>verificationCallback\<close> and
  \<^verbatim>\<open>testingSimulateVerificationCallback\<close>, which repeat it line by line: mark the
  request completed, set the work verified on a match, credit the deposit.
\<close>

definition complete_verification :: "uint256 \<Rightarrow> bool \<Rightarrow> state \<Rightarrow> error + state" where
  "complete_verification requestId isMatch s =
     (let s1 = s\<lparr>verificationRequests := (verificationRequests s)(requestId :=
                  (verificationRequests s requestId)\<lparr>completed := True\<rparr>)\<rparr>;
          request = verificationRequests s1 requestId;
          s2 = (if isMatch
                then emit (WorkVerified (v_workId request) (requester request))
                       (s1\<lparr>works := (works s1)(v_workId request :=
                             (works s1 (v_workId request))\<lparr>verified := True\<rparr>)\<rparr>)
                else s1)
      in and_then
           (if v_depositAmount request > 0
            then credit_pendingRefunds (requester request) (v_depositAmount request) s2
            else Inr s2)
           (\<lambda>s3. Inr (emit (VerificationCompleted (v_workId request) requestId isMatch) s3)))"

definition verificationCallback :: "env \<Rightarrow> uint256 \<Rightarrow> bytes \<Rightarrow> bytes \<Rightarrow> state \<Rightarrow> error + state" where
  "verificationCallback env requestId cleartexts decryptionProof s =
     (if \<not> fhe_checkSignatures env requestId cleartexts decryptionProof
        then Inl InvalidSignatures
      else if \<not> \<not> completed (verificationRequests s requestId)
        then Inl (Revert ''AC: Already processed'')
      else and_then (abi_decode_bool cleartexts) (\<lambda>isMatch.
             complete_verification requestId isMatch s))"

section \<open>Dispute system with Gateway callback\<close>

definition fileDispute :: "env \<Rightarrow> uint256 \<Rightarrow> uint256 \<Rightarrow> uint32 \<Rightarrow> state \<Rightarrow> error + state" where
  "fileDispute env msg_value workId' challengerContentHash' s0 =
     validWorkId workId' (onlyRegisteredAuthor env (whenNotPaused (\<lambda>s.
       if \<not> msg_value \<ge> DISPUTE_DEPOSIT then Inl (Revert ''AC: Insufficient dispute deposit'')
       else if \<not> challengerContentHash' > 0 then Inl (Revert ''AC: Invalid content hash'')
       else if \<not> registrant (works s workId') \<noteq> msg_sender env
         then Inl (Revert ''AC: Cannot dispute own work'')
       else if \<not> disputeCount (works s workId') < MAX_DISPUTES_PER_WORK
         then Inl (Revert ''AC: Max disputes reached'')
       else
         (let encryptedChallengerHash = fhe_asEuint32 env challengerContentHash';
              disputeId = (of_nat (length (disputes s workId')) :: uint256);
              s1 = s\<lparr>disputes := (disputes s)(workId' := disputes s workId' @
                     [\<lparr>challenger = msg_sender env,
                       challengerContentHash = encryptedChallengerHash,
                       d_timestamp = block_timestamp env,
                       d_depositAmount = msg_value,
                       resolved = False, winner = 0,
                       decryptionRequestId = 0, d_requestTimestamp = 0\<rparr>])\<rparr>;
              s2 = s1\<lparr>works := (works s1)(workId' := (works s1 workId')\<lparr>disputed := True\<rparr>)\<rparr>
          in and_then (checked_add (disputeCount (works s2 workId')) 1) (\<lambda>n.
             let s3 = s2\<lparr>works := (works s2)(workId' :=
                        (works s2 workId')\<lparr>disputeCount := n\<rparr>)\<rparr>
             in and_then (checked_add (totalDisputes (authors s3 (msg_sender env))) 1) (\<lambda>c.
                let s4 = s3\<lparr>authors := (authors s3)(msg_sender env :=
                           (authors s3 (msg_sender env))\<lparr>totalDisputes := c\<rparr>)\<rparr>;
                    owner_acct = registrant (works s4 workId')
                in and_then (checked_add (totalDisputes (authors s4 owner_acct)) 1) (\<lambda>r.
                   let s5 = s4\<lparr>authors := (authors s4)(owner_acct :=
                              (authors s4 owner_acct)\<lparr>totalDisputes := r\<rparr>)\<rparr>
                   in Inr (emit (DisputeFiled workId' (msg_sender env) disputeId msg_value)
                             s5))))))))
       (receive_value msg_value s0)"

definition requestDisputeResolution :: "env \<Rightarrow> uint256 \<Rightarrow> uint256 \<Rightarrow> state \<Rightarrow> error + state" where
  "requestDisputeResolution env workId' disputeId' =
     validWorkId workId' (whenNotPaused (\<lambda>s.
       if \<not> unat disputeId' < length (disputes s workId')
         then Inl (Revert ''AC: Invalid dispute ID'')
       else
         (let dispute = disputes s workId' ! unat disputeId' in
          if \<not> \<not> resolved dispute then Inl (Revert ''AC: Dispute already resolved'')
          else if \<not> (msg_sender env = challenger dispute
                     \<or> msg_sender env = registrant (works s workId'))
            then Inl (Revert ''AC: Not authorized'')
          else
            (let work = works s workId';
                 cts = [encryptedContentHash work, challengerContentHash dispute];
                 requestId = fhe_requestDecryption env cts;
                 s1 = s\<lparr>disputes := (disputes s)(workId' :=
                        (disputes s workId')[unat disputeId' :=
                           dispute\<lparr>decryptionRequestId := requestId,
                                   d_requestTimestamp := block_timestamp env\<rparr>])\<rparr>;
                 s2 = s1\<lparr>pendingDecryptions := (pendingDecryptions s1)(requestId :=
                        \<lparr>p_workId = workId', p_disputeId = disputeId',
                         decryptionType = DisputeResolution, initiator = msg_sender env,
                         p_timestamp = block_timestamp env\<rparr>)\<rparr>
             in Inr (emit (DecryptionRequested requestId DisputeResolution workId') s2)))))"

text \<open>
  The winner of a dispute as \<^verbatim>\<open>disputeResolutionCallback\<close> computes it, with the
  increment of the challenger's \<^verbatim>\<open>wonDisputes\<close> in the branch that has it.
\<close>

definition decide_winner ::
  "uint32 \<Rightarrow> uint32 \<Rightarrow> OriginalWork \<Rightarrow> DisputeRecord \<Rightarrow> state \<Rightarrow> error + (address \<times> state)" where
  "decide_winner originalHash challengerHash work dispute s =
     (if originalHash = challengerHash then
        (if w_timestamp work \<le> d_timestamp dispute then Inr (registrant work, s)
         else and_then (checked_add (wonDisputes (authors s (challenger dispute))) 1) (\<lambda>n.
                Inr (challenger dispute,
                     s\<lparr>authors := (authors s)(challenger dispute :=
                          (authors s (challenger dispute))\<lparr>wonDisputes := n\<rparr>)\<rparr>)))
      else Inr (registrant work, s))"

definition disputeResolutionCallback ::
  "env \<Rightarrow> uint256 \<Rightarrow> bytes \<Rightarrow> bytes \<Rightarrow> state \<Rightarrow> error + state" where
  "disputeResolutionCallback env requestId cleartexts decryptionProof =
     noReentrancy (\<lambda>s.
       if \<not> fhe_checkSignatures env requestId cleartexts decryptionProof
         then Inl InvalidSignatures
       else if \<not> decryptionType (pendingDecryptions s requestId) = DisputeResolution
         then Inl (Revert ''AC: Invalid callback'')
       else
         (let workId = p_workId (pendingDecryptions s requestId);
              disputeId = p_disputeId (pendingDecryptions s requestId)
          in if \<not> unat disputeId < length (disputes s workId) then Inl OutOfBounds
          else
            (let dispute = disputes s workId ! unat disputeId in
             if \<not> \<not> resolved dispute then Inl (Revert ''AC: Already resolved'')
             else and_then (abi_decode_uint32_pair cleartexts) (\<lambda>(originalHash, challengerHash).
               let work = works s workId;
                   prizeAmount = d_depositAmount dispute
               in and_then (decide_winner originalHash challengerHash work dispute s)
                    (\<lambda>(winner', s1).
                  let s2 = s1\<lparr>disputes := (disputes s1)(workId :=
                             (disputes s1 workId)[unat disputeId :=
                                (disputes s1 workId ! unat disputeId)
                                  \<lparr>resolved := True, winner := winner'\<rparr>])\<rparr>
                  in and_then
                       (if prizeAmount > 0 then credit_pendingRefunds winner' prizeAmount s2
                        else Inr s2)
                       (\<lambda>s3. Inr (emit (DisputeResolved workId disputeId winner' prizeAmount)
                                    s3)))))))"

section \<open>Timeout protection and refunds\<close>

definition claimVerificationTimeout :: "env \<Rightarrow> uint256 \<Rightarrow> state \<Rightarrow> error + state" where
  "claimVerificationTimeout env requestId =
     noReentrancy (\<lambda>s.
       let request = verificationRequests s requestId in
       if \<not> requester request = msg_sender env then Inl (Revert ''AC: Not requester'')
       else if \<not> \<not> completed request then Inl (Revert ''AC: Already completed'')
       else if \<not> \<not> refunded request then Inl (Revert ''AC: Already refunded'')
       else and_then (checked_add (v_requestTimestamp request) VERIFICATION_TIMEOUT)
         (\<lambda>deadline.
           if \<not> block_timestamp env > deadline then Inl (Revert ''AC: Timeout not reached'')
           else
             (let s1 = s\<lparr>verificationRequests := (verificationRequests s)(requestId :=
                          request\<lparr>refunded := True\<rparr>)\<rparr>;
                  refundAmount = v_depositAmount request
              in and_then
                   (if refundAmount > 0
                    then (case call_value env (msg_sender env) refundAmount s1 of
                            (sent, s2) \<Rightarrow>
                              if \<not> sent then Inl (Revert ''AC: Refund failed'') else Inr s2)
                    else Inr s1)
                   (\<lambda>s2. Inr (emit (TimeoutRefund (msg_sender env) refundAmount requestId)
                                s2)))))"

text \<open>
  In \<^verbatim>\<open>claimDisputeTimeout\<close> the event reads \<^verbatim>\<open>dispute.decryptionRequestId\<close> through the
  storage reference after the transfer, so from the state the recipient left.
\<close>

definition claimDisputeTimeout :: "env \<Rightarrow> uint256 \<Rightarrow> uint256 \<Rightarrow> state \<Rightarrow> error + state" where
  "claimDisputeTimeout env workId' disputeId' =
     noReentrancy (\<lambda>s.
       if \<not> unat disputeId' < length (disputes s workId')
         then Inl (Revert ''AC: Invalid dispute ID'')
       else
         (let dispute = disputes s workId' ! unat disputeId' in
          if \<not> challenger dispute = msg_sender env then Inl (Revert ''AC: Not challenger'')
          else if \<not> \<not> resolved dispute then Inl (Revert ''AC: Already resolved'')
          else if \<not> decryptionRequestId dispute \<noteq> 0
            then Inl (Revert ''AC: Resolution not requested'')
          else and_then (checked_add (d_requestTimestamp dispute) DISPUTE_TIMEOUT)
            (\<lambda>deadline.
              if \<not> block_timestamp env > deadline
                then Inl (Revert ''AC: Timeout not reached'')
              else
                (let s1 = s\<lparr>disputes := (disputes s)(workId' :=
                             (disputes s workId')[unat disputeId' :=
                                dispute\<lparr>resolved := True\<rparr>])\<rparr>;
                     refundAmount = d_depositAmount dispute
                 in and_then
                      (if refundAmount > 0
                       then (case call_value env (msg_sender env) refundAmount s1 of
                               (sent, s2) \<Rightarrow>
                                 if \<not> sent then Inl (Revert ''AC: Refund failed'')
                                 else Inr s2)
                       else Inr s1)
                      (\<lambda>s2. Inr (emit (TimeoutRefund (msg_sender env) refundAmount
                                     (decryptionRequestId (disputes s2 workId' ! unat disputeId')))
                                   s2))))))"

definition withdrawRefund :: "env \<Rightarrow> state \<Rightarrow> error + state" where
  "withdrawRefund env =
     noReentrancy (\<lambda>s.
       let amount = pendingRefunds s (msg_sender env) in
       if \<not> amount > 0 then Inl (Revert ''AC: No refund available'')
       else
         (let s1 = s\<lparr>pendingRefunds := (pendingRefunds s)(msg_sender env := 0)\<rparr>
          in case call_value env (msg_sender env) amount s1 of
               (sent, s2) \<Rightarrow>
                 if \<not> sent then Inl (Revert ''AC: Withdrawal failed'')
                 else Inr (emit (RefundIssued (msg_sender env) amount
                                   ''Pending refund claimed'') s2)))"

section \<open>Test helpers and plain transfers\<close>





section \<open>Transactions\<close>



text \<open>The error of a call, or \<open>None\<close> when it succeeds.\<close>

definition outcome :: "error + state \<Rightarrow> error option" where
  "outcome r = (case r of Inl e \<Rightarrow> Some e | Inr _ \<Rightarrow> None)"


section \<open>A worked scenario\<close>

text \<open>
  Concrete accounts, environments and states on which the theorems below are run. The
  states follow one history of the contract: deployment, Alice registering as an author
  and registering work 1, Bob registering, and then either a verification request by Bob
  or a dispute filed by Bob. Each state is written out in full; the section after this
  one shows that the contract's functions lead from each to the next.
\<close>

definition deployer :: address where "deployer = 1"
definition alice :: address where "alice = 2"
definition bob :: address where "bob = 3"

text \<open>
  An environment in which every proof is accepted, every transfer is accepted by a
  recipient that does nothing else, and the FHE library hands out request id 1.
\<close>

definition demo_env :: "address \<Rightarrow> uint256 \<Rightarrow> env" where
  "demo_env sender now =
     \<lparr>msg_sender = sender, block_timestamp = now, block_prevrandao = 0,
      keccak256 = (\<lambda>_. 0), fhe_asEuint32 = ucast, fhe_asEuint64 = ucast,
      fhe_eq = (\<lambda>a b. if a = b then 1 else 0), fhe_requestDecryption = (\<lambda>_. 1),
      fhe_checkSignatures = (\<lambda>_ _ _. True), recipient = (\<lambda>_ _ st. (True, st))\<rparr>"

text \<open>The ABI encodings of \<^verbatim>\<open>true\<close> and of the pair \<^verbatim>\<open>(42, 42)\<close>.\<close>

definition abi_true :: bytes where
  "abi_true = [0,0,0,0,0,0,0,0, 0,0,0,0,0,0,0,0, 0,0,0,0,0,0,0,0, 0,0,0,0,0,0,0,1]"

definition abi_42_42 :: bytes where
  "abi_42_42 =
     [0,0,0,0,0,0,0,0, 0,0,0,0,0,0,0,0, 0,0,0,0,0,0,0,0, 0,0,0,0,0,0,0,42,
      0,0,0,0,0,0,0,0, 0,0,0,0,0,0,0,0, 0,0,0,0,0,0,0,0, 0,0,0,0,0,0,0,42]"

text \<open>The contract as \<open>deployer\<close> constructs it.\<close>

definition st_deployed :: state where
  "st_deployed =
     \<lparr>owner = deployer, workCounter = 0, registrationFee = MIN_REGISTRATION_FEE,
       paused = False, isTesting = False, platformFees = 0, works = (\<lambda>_. zero_work),
       disputes = (\<lambda>_. []), authors = (\<lambda>_. zero_author),
       authorWorks = (\<lambda>_. []), verificationRequests = (\<lambda>_. zero_request),
       pendingDecryptions = (\<lambda>_. zero_pending), pendingRefunds = (\<lambda>_. 0),
       verificationRequestCounter = 0, locked = False, this_balance = 0, events = []\<rparr>"

text \<open>Alice has registered as an author (id 7) at time 10.\<close>

definition st_author :: state where
  "st_author =
     \<lparr>owner = deployer, workCounter = 0, registrationFee = MIN_REGISTRATION_FEE,
       paused = False, isTesting = False, platformFees = 0, works = (\<lambda>_. zero_work),
       disputes = (\<lambda>_. []),
       authors = (\<lambda>_. zero_author)
         (alice := \<lparr>a_encryptedAuthorId = 7, privacyMultiplier = 1000, registered = True,
             workCount = 0, totalDisputes = 0, wonDisputes = 0, registrationTime = 10\<rparr>),
       authorWorks = (\<lambda>_. []), verificationRequests = (\<lambda>_. zero_request),
       pendingDecryptions = (\<lambda>_. zero_pending), pendingRefunds = (\<lambda>_. 0),
       verificationRequestCounter = 0, locked = False, this_balance = 0,
       events = [AuthorRegistered alice 10]\<rparr>"

text \<open>Alice has registered work 1 (fingerprint 42) at time 20, paying the minimum fee.\<close>

definition st_work :: state where
  "st_work =
     \<lparr>owner = deployer, workCounter = 1, registrationFee = MIN_REGISTRATION_FEE,
       paused = False, isTesting = False, platformFees = MIN_REGISTRATION_FEE,
       works = (\<lambda>_. zero_work)
         (1 := \<lparr>encryptedContentHash = 42, w_encryptedAuthorId = 7, privacyNonce = 0,
             registrant = alice, w_timestamp = 20,
             registrationFeeAmount = MIN_REGISTRATION_FEE, verified = False,
             disputed = False, disputeCount = 0, workTitle = ''W'', category = ''art''\<rparr>),
       disputes = (\<lambda>_. []),
       authors = (\<lambda>_. zero_author)
         (alice := \<lparr>a_encryptedAuthorId = 7, privacyMultiplier = 1000, registered = True,
             workCount = 1, totalDisputes = 0, wonDisputes = 0, registrationTime = 10\<rparr>),
       authorWorks = (\<lambda>_. [])
         (alice := [1]),
       verificationRequests = (\<lambda>_. zero_request),
       pendingDecryptions = (\<lambda>_. zero_pending), pendingRefunds = (\<lambda>_. 0),
       verificationRequestCounter = 0, locked = False, this_balance = MIN_REGISTRATION_FEE,
       events = [AuthorRegistered alice 10,
          WorkRegistered 1 alice ''W'' 20 MIN_REGISTRATION_FEE]\<rparr>"

text \<open>Bob has registered as an author (id 9) at time 30.\<close>

definition st_bob :: state where
  "st_bob =
     \<lparr>owner = deployer, workCounter = 1, registrationFee = MIN_REGISTRATION_FEE,
       paused = False, isTesting = False, platformFees = MIN_REGISTRATION_FEE,
       works = (\<lambda>_. zero_work)
         (1 := \<lparr>encryptedContentHash = 42, w_encryptedAuthorId = 7, privacyNonce = 0,
             registrant = alice, w_timestamp = 20,
             registrationFeeAmount = MIN_REGISTRATION_FEE, verified = False,
             disputed = False, disputeCount = 0, workTitle = ''W'', category = ''art''\<rparr>),
       disputes = (\<lambda>_. []),
       authors = (\<lambda>_. zero_author)
         (alice := \<lparr>a_encryptedAuthorId = 7, privacyMultiplier = 1000, registered = True,
             workCount = 1, totalDisputes = 0, wonDisputes = 0, registrationTime = 10\<rparr>,
          bob := \<lparr>a_encryptedAuthorId = 9, privacyMultiplier = 1000, registered = True,
             workCount = 0, totalDisputes = 0, wonDisputes = 0, registrationTime = 30\<rparr>),
       authorWorks = (\<lambda>_. [])
         (alice := [1]),
       verificationRequests = (\<lambda>_. zero_request),
       pendingDecryptions = (\<lambda>_. zero_pending), pendingRefunds = (\<lambda>_. 0),
       verificationRequestCounter = 0, locked = False, this_balance = MIN_REGISTRATION_FEE,
       events = [AuthorRegistered alice 10,
          WorkRegistered 1 alice ''W'' 20 MIN_REGISTRATION_FEE,
          AuthorRegistered bob 30]\<rparr>"

text \<open>Bob has requested verification of work 1 at time 1000 with the minimum deposit; the request id is 1.\<close>

definition st_requested :: state where
  "st_requested =
     \<lparr>owner = deployer, workCounter = 1, registrationFee = MIN_REGISTRATION_FEE,
       paused = False, isTesting = False, platformFees = MIN_REGISTRATION_FEE,
       works = (\<lambda>_. zero_work)
         (1 := \<lparr>encryptedContentHash = 42, w_encryptedAuthorId = 7, privacyNonce = 0,
             registrant = alice, w_timestamp = 20,
             registrationFeeAmount = MIN_REGISTRATION_FEE, verified = False,
             disputed = False, disputeCount = 0, workTitle = ''W'', category = ''art''\<rparr>),
       disputes = (\<lambda>_. []),
       authors = (\<lambda>_. zero_author)
         (alice := \<lparr>a_encryptedAuthorId = 7, privacyMultiplier = 1000, registered = True,
             workCount = 1, totalDisputes = 0, wonDisputes = 0, registrationTime = 10\<rparr>,
          bob := \<lparr>a_encryptedAuthorId = 9, privacyMultiplier = 1000, registered = True,
             workCount = 0, totalDisputes = 0, wonDisputes = 0, registrationTime = 30\<rparr>),
       authorWorks = (\<lambda>_. [])
         (alice := [1]),
       verificationRequests = (\<lambda>_. zero_request)
         (1 := \<lparr>requester = bob, v_workId = 1, v_requestId = 1,
             v_depositAmount = MIN_REGISTRATION_FEE, v_requestTimestamp = 1000,
             completed = False, refunded = False\<rparr>),
       pendingDecryptions = (\<lambda>_. zero_pending)
         (1 := \<lparr>p_workId = 1, p_disputeId = 0, decryptionType = Verification, initiator = bob,
             p_timestamp = 1000\<rparr>),
       pendingRefunds = (\<lambda>_. 0), verificationRequestCounter = 1, locked = False,
       this_balance = 2000000000000000,
       events = [AuthorRegistered alice 10,
          WorkRegistered 1 alice ''W'' 20 MIN_REGISTRATION_FEE,
          AuthorRegistered bob 30,
          VerificationRequested 1 bob 1 MIN_REGISTRATION_FEE,
          DecryptionRequested 1 Verification 1]\<rparr>"

text \<open>Bob has claimed the verification timeout at time 4601 and been paid his deposit.\<close>

definition st_timed_out :: state where
  "st_timed_out =
     \<lparr>owner = deployer, workCounter = 1, registrationFee = MIN_REGISTRATION_FEE,
       paused = False, isTesting = False, platformFees = MIN_REGISTRATION_FEE,
       works = (\<lambda>_. zero_work)
         (1 := \<lparr>encryptedContentHash = 42, w_encryptedAuthorId = 7, privacyNonce = 0,
             registrant = alice, w_timestamp = 20,
             registrationFeeAmount = MIN_REGISTRATION_FEE, verified = False,
             disputed = False, disputeCount = 0, workTitle = ''W'', category = ''art''\<rparr>),
       disputes = (\<lambda>_. []),
       authors = (\<lambda>_. zero_author)
         (alice := \<lparr>a_encryptedAuthorId = 7, privacyMultiplier = 1000, registered = True,
             workCount = 1, totalDisputes = 0, wonDisputes = 0, registrationTime = 10\<rparr>,
          bob := \<lparr>a_encryptedAuthorId = 9, privacyMultiplier = 1000, registered = True,
             workCount = 0, totalDisputes = 0, wonDisputes = 0, registrationTime = 30\<rparr>),
       authorWorks = (\<lambda>_. [])
         (alice := [1]),
       verificationRequests = (\<lambda>_. zero_request)
         (1 := \<lparr>requester = bob, v_workId = 1, v_requestId = 1,
             v_depositAmount = MIN_REGISTRATION_FEE, v_requestTimestamp = 1000,
             completed = False, refunded = True\<rparr>),
       pendingDecryptions = (\<lambda>_. zero_pending)
         (1 := \<lparr>p_workId = 1, p_disputeId = 0, decryptionType = Verification, initiator = bob,
             p_timestamp = 1000\<rparr>),
       pendingRefunds = (\<lambda>_. 0), verificationRequestCounter = 1, locked = False,
       this_balance = MIN_REGISTRATION_FEE,
       events = [AuthorRegistered alice 10,
          WorkRegistered 1 alice ''W'' 20 MIN_REGISTRATION_FEE,
          AuthorRegistered bob 30,
          VerificationRequested 1 bob 1 MIN_REGISTRATION_FEE,
          DecryptionRequested 1 Verification 1,
          TimeoutRefund bob MIN_REGISTRATION_FEE 1]\<rparr>"

text \<open>The oracle has then called back on request 1 at time 5000.\<close>

definition st_double_paid :: state where
  "st_double_paid =
     \<lparr>owner = deployer, workCounter = 1, registrationFee = MIN_REGISTRATION_FEE,
       paused = False, isTesting = False, platformFees = MIN_REGISTRATION_FEE,
       works = (\<lambda>_. zero_work)
         (1 := \<lparr>encryptedContentHash = 42, w_encryptedAuthorId = 7, privacyNonce = 0,
             registrant = alice, w_timestamp = 20,
             registrationFeeAmount = MIN_REGISTRATION_FEE, verified = True, disputed = False,
             disputeCount = 0, workTitle = ''W'', category = ''art''\<rparr>),
       disputes = (\<lambda>_. []),
       authors = (\<lambda>_. zero_author)
         (alice := \<lparr>a_encryptedAuthorId = 7, privacyMultiplier = 1000, registered = True,
             workCount = 1, totalDisputes = 0, wonDisputes = 0, registrationTime = 10\<rparr>,
          bob := \<lparr>a_encryptedAuthorId = 9, privacyMultiplier = 1000, registered = True,
             workCount = 0, totalDisputes = 0, wonDisputes = 0, registrationTime = 30\<rparr>),
       authorWorks = (\<lambda>_. [])
         (alice := [1]),
       verificationRequests = (\<lambda>_. zero_request)
         (1 := \<lparr>requester = bob, v_workId = 1, v_requestId = 1,
             v_depositAmount = MIN_REGISTRATION_FEE, v_requestTimestamp = 1000,
             completed = True, refunded = True\<rparr>),
       pendingDecryptions = (\<lambda>_. zero_pending)
         (1 := \<lparr>p_workId = 1, p_disputeId = 0, decryptionType = Verification, initiator = bob,
             p_timestamp = 1000\<rparr>),
       pendingRefunds = (\<lambda>_. 0)
         (bob := MIN_REGISTRATION_FEE),
       verificationRequestCounter = 1, locked = False, this_balance = MIN_REGISTRATION_FEE,
       events = [AuthorRegistered alice 10,
          WorkRegistered 1 alice ''W'' 20 MIN_REGISTRATION_FEE,
          AuthorRegistered bob 30,
          VerificationRequested 1 bob 1 MIN_REGISTRATION_FEE,
          DecryptionRequested 1 Verification 1,
          TimeoutRefund bob MIN_REGISTRATION_FEE 1,
          WorkVerified 1 bob,
          VerificationCompleted 1 1 True]\<rparr>"

text \<open>Bob has then withdrawn his escrow balance.\<close>

definition st_drained :: state where
  "st_drained =
     \<lparr>owner = deployer, workCounter = 1, registrationFee = MIN_REGISTRATION_FEE,
       paused = False, isTesting = False, platformFees = MIN_REGISTRATION_FEE,
       works = (\<lambda>_. zero_work)
         (1 := \<lparr>encryptedContentHash = 42, w_encryptedAuthorId = 7, privacyNonce = 0,
             registrant = alice, w_timestamp = 20,
             registrationFeeAmount = MIN_REGISTRATION_FEE, verified = True, disputed = False,
             disputeCount = 0, workTitle = ''W'', category = ''art''\<rparr>),
       disputes = (\<lambda>_. []),
       authors = (\<lambda>_. zero_author)
         (alice := \<lparr>a_encryptedAuthorId = 7, privacyMultiplier = 1000, registered = True,
             workCount = 1, totalDisputes = 0, wonDisputes = 0, registrationTime = 10\<rparr>,
          bob := \<lparr>a_encryptedAuthorId = 9, privacyMultiplier = 1000, registered = True,
             workCount = 0, totalDisputes = 0, wonDisputes = 0, registrationTime = 30\<rparr>),
       authorWorks = (\<lambda>_. [])
         (alice := [1]),
       verificationRequests = (\<lambda>_. zero_request)
         (1 := \<lparr>requester = bob, v_workId = 1, v_requestId = 1,
             v_depositAmount = MIN_REGISTRATION_FEE, v_requestTimestamp = 1000,
             completed = True, refunded = True\<rparr>),
       pendingDecryptions = (\<lambda>_. zero_pending)
         (1 := \<lparr>p_workId = 1, p_disputeId = 0, decryptionType = Verification, initiator = bob,
             p_timestamp = 1000\<rparr>),
       pendingRefunds = (\<lambda>_. 0)
         (bob := 0),
       verificationRequestCounter = 1, locked = False, this_balance = 0,
       events = [AuthorRegistered alice 10,
          WorkRegistered 1 alice ''W'' 20 MIN_REGISTRATION_FEE,
          AuthorRegistered bob 30,
          VerificationRequested 1 bob 1 MIN_REGISTRATION_FEE,
          DecryptionRequested 1 Verification 1,
          TimeoutRefund bob MIN_REGISTRATION_FEE 1,
          WorkVerified 1 bob,
          VerificationCompleted 1 1 True,
          RefundIssued bob MIN_REGISTRATION_FEE ''Pending refund claimed'']\<rparr>"

text \<open>From \<open>st_bob\<close>: Bob has filed a dispute on work 1 at time 2000 with the dispute deposit.\<close>

definition st_disputed :: state where
  "st_disputed =
     \<lparr>owner = deployer, workCounter = 1, registrationFee = MIN_REGISTRATION_FEE,
       paused = False, isTesting = False, platformFees = MIN_REGISTRATION_FEE,
       works = (\<lambda>_. zero_work)
         (1 := \<lparr>encryptedContentHash = 42, w_encryptedAuthorId = 7, privacyNonce = 0,
             registrant = alice, w_timestamp = 20,
             registrationFeeAmount = MIN_REGISTRATION_FEE, verified = False, disputed = True,
             disputeCount = 1, workTitle = ''W'', category = ''art''\<rparr>),
       disputes = (\<lambda>_. [])
         (1 := [\<lparr>challenger = bob, challengerContentHash = 42, d_timestamp = 2000,
              d_depositAmount = DISPUTE_DEPOSIT, resolved = False, winner = 0,
              decryptionRequestId = 0, d_requestTimestamp = 0\<rparr>]),
       authors = (\<lambda>_. zero_author)
         (alice := \<lparr>a_encryptedAuthorId = 7, privacyMultiplier = 1000, registered = True,
             workCount = 1, totalDisputes = 1, wonDisputes = 0, registrationTime = 10\<rparr>,
          bob := \<lparr>a_encryptedAuthorId = 9, privacyMultiplier = 1000, registered = True,
             workCount = 0, totalDisputes = 1, wonDisputes = 0, registrationTime = 30\<rparr>),
       authorWorks = (\<lambda>_. [])
         (alice := [1]),
       verificationRequests = (\<lambda>_. zero_request),
       pendingDecryptions = (\<lambda>_. zero_pending), pendingRefunds = (\<lambda>_. 0),
       verificationRequestCounter = 0, locked = False, this_balance = 6000000000000000,
       events = [AuthorRegistered alice 10,
          WorkRegistered 1 alice ''W'' 20 MIN_REGISTRATION_FEE,
          AuthorRegistered bob 30,
          DisputeFiled 1 bob 0 DISPUTE_DEPOSIT]\<rparr>"

text \<open>Bob has requested resolution of that dispute at time 2100; the request id is 1.\<close>

definition st_resolving :: state where
  "st_resolving =
     \<lparr>owner = deployer, workCounter = 1, registrationFee = MIN_REGISTRATION_FEE,
       paused = False, isTesting = False, platformFees = MIN_REGISTRATION_FEE,
       works = (\<lambda>_. zero_work)
         (1 := \<lparr>encryptedContentHash = 42, w_encryptedAuthorId = 7, privacyNonce = 0,
             registrant = alice, w_timestamp = 20,
             registrationFeeAmount = MIN_REGISTRATION_FEE, verified = False, disputed = True,
             disputeCount = 1, workTitle = ''W'', category = ''art''\<rparr>),
       disputes = (\<lambda>_. [])
         (1 := [\<lparr>challenger = bob, challengerContentHash = 42, d_timestamp = 2000,
              d_depositAmount = DISPUTE_DEPOSIT, resolved = False, winner = 0,
              decryptionRequestId = 1, d_requestTimestamp = 2100\<rparr>]),
       authors = (\<lambda>_. zero_author)
         (alice := \<lparr>a_encryptedAuthorId = 7, privacyMultiplier = 1000, registered = True,
             workCount = 1, totalDisputes = 1, wonDisputes = 0, registrationTime = 10\<rparr>,
          bob := \<lparr>a_encryptedAuthorId = 9, privacyMultiplier = 1000, registered = True,
             workCount = 0, totalDisputes = 1, wonDisputes = 0, registrationTime = 30\<rparr>),
       authorWorks = (\<lambda>_. [])
         (alice := [1]),
       verificationRequests = (\<lambda>_. zero_request),
       pendingDecryptions = (\<lambda>_. zero_pending)
         (1 := \<lparr>p_workId = 1, p_disputeId = 0, decryptionType = DisputeResolution,
             initiator = bob, p_timestamp = 2100\<rparr>),
       pendingRefunds = (\<lambda>_. 0), verificationRequestCounter = 0, locked = False,
       this_balance = 6000000000000000,
       events = [AuthorRegistered alice 10,
          WorkRegistered 1 alice ''W'' 20 MIN_REGISTRATION_FEE,
          AuthorRegistered bob 30,
          DisputeFiled 1 bob 0 DISPUTE_DEPOSIT,
          DecryptionRequested 1 DisputeResolution 1]\<rparr>"

text \<open>The oracle has called back with equal fingerprints: Alice, who registered first, wins.\<close>

definition st_resolved :: state where
  "st_resolved =
     \<lparr>owner = deployer, workCounter = 1, registrationFee = MIN_REGISTRATION_FEE,
       paused = False, isTesting = False, platformFees = MIN_REGISTRATION_FEE,
       works = (\<lambda>_. zero_work)
         (1 := \<lparr>encryptedContentHash = 42, w_encryptedAuthorId = 7, privacyNonce = 0,
             registrant = alice, w_timestamp = 20,
             registrationFeeAmount = MIN_REGISTRATION_FEE, verified = False, disputed = True,
             disputeCount = 1, workTitle = ''W'', category = ''art''\<rparr>),
       disputes = (\<lambda>_. [])
         (1 := [\<lparr>challenger = bob, challengerContentHash = 42, d_timestamp = 2000,
              d_depositAmount = DISPUTE_DEPOSIT, resolved = True, winner = alice,
              decryptionRequestId = 1, d_requestTimestamp = 2100\<rparr>]),
       authors = (\<lambda>_. zero_author)
         (alice := \<lparr>a_encryptedAuthorId = 7, privacyMultiplier = 1000, registered = True,
             workCount = 1, totalDisputes = 1, wonDisputes = 0, registrationTime = 10\<rparr>,
          bob := \<lparr>a_encryptedAuthorId = 9, privacyMultiplier = 1000, registered = True,
             workCount = 0, totalDisputes = 1, wonDisputes = 0, registrationTime = 30\<rparr>),
       authorWorks = (\<lambda>_. [])
         (alice := [1]),
       verificationRequests = (\<lambda>_. zero_request),
       pendingDecryptions = (\<lambda>_. zero_pending)
         (1 := \<lparr>p_workId = 1, p_disputeId = 0, decryptionType = DisputeResolution,
             initiator = bob, p_timestamp = 2100\<rparr>),
       pendingRefunds = (\<lambda>_. 0)
         (alice := DISPUTE_DEPOSIT),
       verificationRequestCounter = 0, locked = False, this_balance = 6000000000000000,
       events = [AuthorRegistered alice 10,
          WorkRegistered 1 alice ''W'' 20 MIN_REGISTRATION_FEE,
          AuthorRegistered bob 30,
          DisputeFiled 1 bob 0 DISPUTE_DEPOSIT,
          DecryptionRequested 1 DisputeResolution 1,
          DisputeResolved 1 0 alice DISPUTE_DEPOSIT]\<rparr>"

text \<open>From \<open>st_resolving\<close>: Alice has requested resolution of the same dispute again at time 88500, the last moment before its timeout can be claimed, under the new request id 2.\<close>

definition st_rerequested :: state where
  "st_rerequested =
     \<lparr>owner = deployer, workCounter = 1, registrationFee = MIN_REGISTRATION_FEE,
       paused = False, isTesting = False, platformFees = MIN_REGISTRATION_FEE,
       works = (\<lambda>_. zero_work)
         (1 := \<lparr>encryptedContentHash = 42, w_encryptedAuthorId = 7, privacyNonce = 0,
             registrant = alice, w_timestamp = 20,
             registrationFeeAmount = MIN_REGISTRATION_FEE, verified = False, disputed = True,
             disputeCount = 1, workTitle = ''W'', category = ''art''\<rparr>),
       disputes = (\<lambda>_. [])
         (1 := [\<lparr>challenger = bob, challengerContentHash = 42, d_timestamp = 2000,
              d_depositAmount = DISPUTE_DEPOSIT, resolved = False, winner = 0,
              decryptionRequestId = 2, d_requestTimestamp = 88500\<rparr>]),
       authors = (\<lambda>_. zero_author)
         (alice := \<lparr>a_encryptedAuthorId = 7, privacyMultiplier = 1000, registered = True,
             workCount = 1, totalDisputes = 1, wonDisputes = 0, registrationTime = 10\<rparr>,
          bob := \<lparr>a_encryptedAuthorId = 9, privacyMultiplier = 1000, registered = True,
             workCount = 0, totalDisputes = 1, wonDisputes = 0, registrationTime = 30\<rparr>),
       authorWorks = (\<lambda>_. [])
         (alice := [1]),
       verificationRequests = (\<lambda>_. zero_request),
       pendingDecryptions = (\<lambda>_. zero_pending)
         (1 := \<lparr>p_workId = 1, p_disputeId = 0, decryptionType = DisputeResolution,
             initiator = bob, p_timestamp = 2100\<rparr>,
          2 := \<lparr>p_workId = 1, p_disputeId = 0, decryptionType = DisputeResolution,
             initiator = alice, p_timestamp = 88500\<rparr>),
       pendingRefunds = (\<lambda>_. 0), verificationRequestCounter = 0, locked = False,
       this_balance = 6000000000000000,
       events = [AuthorRegistered alice 10,
          WorkRegistered 1 alice ''W'' 20 MIN_REGISTRATION_FEE,
          AuthorRegistered bob 30,
          DisputeFiled 1 bob 0 DISPUTE_DEPOSIT,
          DecryptionRequested 1 DisputeResolution 1,
          DecryptionRequested 2 DisputeResolution 1]\<rparr>"

text \<open>From \<open>st_resolving\<close>: with no answer from the oracle, Bob has claimed the dispute timeout at time 88501 and been paid his deposit.\<close>

definition st_dispute_refunded :: state where
  "st_dispute_refunded =
     \<lparr>owner = deployer, workCounter = 1, registrationFee = MIN_REGISTRATION_FEE,
       paused = False, isTesting = False, platformFees = MIN_REGISTRATION_FEE,
       works = (\<lambda>_. zero_work)
         (1 := \<lparr>encryptedContentHash = 42, w_encryptedAuthorId = 7, privacyNonce = 0,
             registrant = alice, w_timestamp = 20,
             registrationFeeAmount = MIN_REGISTRATION_FEE, verified = False, disputed = True,
             disputeCount = 1, workTitle = ''W'', category = ''art''\<rparr>),
       disputes = (\<lambda>_. [])
         (1 := [\<lparr>challenger = bob, challengerContentHash = 42, d_timestamp = 2000,
              d_depositAmount = DISPUTE_DEPOSIT, resolved = True, winner = 0,
              decryptionRequestId = 1, d_requestTimestamp = 2100\<rparr>]),
       authors = (\<lambda>_. zero_author)
         (alice := \<lparr>a_encryptedAuthorId = 7, privacyMultiplier = 1000, registered = True,
             workCount = 1, totalDisputes = 1, wonDisputes = 0, registrationTime = 10\<rparr>,
          bob := \<lparr>a_encryptedAuthorId = 9, privacyMultiplier = 1000, registered = True,
             workCount = 0, totalDisputes = 1, wonDisputes = 0, registrationTime = 30\<rparr>),
       authorWorks = (\<lambda>_. [])
         (alice := [1]),
       verificationRequests = (\<lambda>_. zero_request),
       pendingDecryptions = (\<lambda>_. zero_pending)
         (1 := \<lparr>p_workId = 1, p_disputeId = 0, decryptionType = DisputeResolution,
             initiator = bob, p_timestamp = 2100\<rparr>),
       pendingRefunds = (\<lambda>_. 0), verificationRequestCounter = 0, locked = False,
       this_balance = MIN_REGISTRATION_FEE,
       events = [AuthorRegistered alice 10,
          WorkRegistered 1 alice ''W'' 20 MIN_REGISTRATION_FEE,
          AuthorRegistered bob 30,
          DisputeFiled 1 bob 0 DISPUTE_DEPOSIT,
          DecryptionRequested 1 DisputeResolution 1,
          TimeoutRefund bob DISPUTE_DEPOSIT 1]\<rparr>"

text \<open>From \<open>st_requested\<close>: the oracle has called back on request 1 in time, with a match.\<close>

definition st_verified :: state where
  "st_verified =
     \<lparr>owner = deployer, workCounter = 1, registrationFee = MIN_REGISTRATION_FEE,
       paused = False, isTesting = False, platformFees = MIN_REGISTRATION_FEE,
       works = (\<lambda>_. zero_work)
         (1 := \<lparr>encryptedContentHash = 42, w_encryptedAuthorId = 7, privacyNonce = 0,
             registrant = alice, w_timestamp = 20,
             registrationFeeAmount = MIN_REGISTRATION_FEE, verified = True, disputed = False,
             disputeCount = 0, workTitle = ''W'', category = ''art''\<rparr>),
       disputes = (\<lambda>_. []),
       authors = (\<lambda>_. zero_author)
         (alice := \<lparr>a_encryptedAuthorId = 7, privacyMultiplier = 1000, registered = True,
             workCount = 1, totalDisputes = 0, wonDisputes = 0, registrationTime = 10\<rparr>,
          bob := \<lparr>a_encryptedAuthorId = 9, privacyMultiplier = 1000, registered = True,
             workCount = 0, totalDisputes = 0, wonDisputes = 0, registrationTime = 30\<rparr>),
       authorWorks = (\<lambda>_. [])
         (alice := [1]),
       verificationRequests = (\<lambda>_. zero_request)
         (1 := \<lparr>requester = bob, v_workId = 1, v_requestId = 1,
             v_depositAmount = MIN_REGISTRATION_FEE, v_requestTimestamp = 1000,
             completed = True, refunded = False\<rparr>),
       pendingDecryptions = (\<lambda>_. zero_pending)
         (1 := \<lparr>p_workId = 1, p_disputeId = 0, decryptionType = Verification, initiator = bob,
             p_timestamp = 1000\<rparr>),
       pendingRefunds = (\<lambda>_. 0)
         (bob := MIN_REGISTRATION_FEE),
       verificationRequestCounter = 1, locked = False, this_balance = 2000000000000000,
       events = [AuthorRegistered alice 10,
          WorkRegistered 1 alice ''W'' 20 MIN_REGISTRATION_FEE,
          AuthorRegistered bob 30,
          VerificationRequested 1 bob 1 MIN_REGISTRATION_FEE,
          DecryptionRequested 1 Verification 1,
          WorkVerified 1 bob,
          VerificationCompleted 1 1 True]\<rparr>"

text \<open>From \<open>st_bob\<close>: the owner has paused the contract.\<close>

definition st_bob_paused :: state where
  "st_bob_paused =
     \<lparr>owner = deployer, workCounter = 1, registrationFee = MIN_REGISTRATION_FEE,
       paused = True, isTesting = False, platformFees = MIN_REGISTRATION_FEE,
       works = (\<lambda>_. zero_work)
         (1 := \<lparr>encryptedContentHash = 42, w_encryptedAuthorId = 7, privacyNonce = 0,
             registrant = alice, w_timestamp = 20,
             registrationFeeAmount = MIN_REGISTRATION_FEE, verified = False,
             disputed = False, disputeCount = 0, workTitle = ''W'', category = ''art''\<rparr>),
       disputes = (\<lambda>_. []),
       authors = (\<lambda>_. zero_author)
         (alice := \<lparr>a_encryptedAuthorId = 7, privacyMultiplier = 1000, registered = True,
             workCount = 1, totalDisputes = 0, wonDisputes = 0, registrationTime = 10\<rparr>,
          bob := \<lparr>a_encryptedAuthorId = 9, privacyMultiplier = 1000, registered = True,
             workCount = 0, totalDisputes = 0, wonDisputes = 0, registrationTime = 30\<rparr>),
       authorWorks = (\<lambda>_. [])
         (alice := [1]),
       verificationRequests = (\<lambda>_. zero_request),
       pendingDecryptions = (\<lambda>_. zero_pending), pendingRefunds = (\<lambda>_. 0),
       verificationRequestCounter = 0, locked = False, this_balance = MIN_REGISTRATION_FEE,
       events = [AuthorRegistered alice 10,
          WorkRegistered 1 alice ''W'' 20 MIN_REGISTRATION_FEE,
          AuthorRegistered bob 30,
          EmergencyPause deployer]\<rparr>"

text \<open>An environment whose recipient rejects every transfer.\<close>

definition rejecting_env :: "address \<Rightarrow> uint256 \<Rightarrow> env" where
  "rejecting_env sender now = (demo_env sender now)\<lparr>recipient := (\<lambda>_ _ st. (False, st))\<rparr>"

text \<open>An environment in which the FHE library hands out request id 2.\<close>

definition demo_env2 :: "address \<Rightarrow> uint256 \<Rightarrow> env" where
  "demo_env2 sender now = (demo_env sender now)\<lparr>fhe_requestDecryption := (\<lambda>_. 2)\<rparr>"

text \<open>
  As \<open>st_resolving\<close>, but with work 1 carrying the later timestamp 3000, so that the
  dispute (filed at 2000) is the earlier of the two.
\<close>

definition st_resolving_late :: state where
  "st_resolving_late =
     st_resolving\<lparr>works := (works st_resolving)(1 :=
        (works st_resolving 1)\<lparr>w_timestamp := 3000\<rparr>)\<rparr>"

section \<open>Reachability of the scenario and basic lemmas\<close>

lemmas scenario_defs = deployer_def alice_def bob_def demo_env_def rejecting_env_def
  emit_def MIN_REGISTRATION_FEE_def DISPUTE_DEPOSIT_def

lemma reach_st_deployed: "constructor (demo_env deployer 0) = st_deployed"
  by (simp add: constructor_def st_deployed_def scenario_defs)

lemma lt_max_iff: "(x::uint256) < - 1 \<longleftrightarrow> x \<noteq> - 1"
  by (metis word_order.not_eq_extremum)

lemma reach_st_author: "registerAuthor (demo_env alice 10) 7 st_deployed = Inr st_author"
  by (simp add: registerAuthor_def whenNotPaused_def scenario_defs zero_author_def Let_def
        PRIVACY_MULTIPLIER_MIN_def PRIVACY_MULTIPLIER_MAX_def st_deployed_def st_author_def)

lemma reach_st_work: "registerWork (demo_env alice 20) MIN_REGISTRATION_FEE 42 ''W'' ''art'' st_author
     = Inr (1, st_work)"
  by (simp add: registerWork_def whenNotPaused_def onlyRegisteredAuthor_def scenario_defs
        zero_author_def Let_def receive_value_def and_then_def checked_add_def
        MAX_TITLE_LENGTH_def MAX_CATEGORY_LENGTH_def lt_max_iff st_author_def st_work_def)

lemma reach_st_bob: "registerAuthor (demo_env bob 30) 9 st_work = Inr st_bob"
  by (simp add: registerAuthor_def whenNotPaused_def scenario_defs zero_author_def Let_def
        PRIVACY_MULTIPLIER_MIN_def PRIVACY_MULTIPLIER_MAX_def st_work_def st_bob_def)

lemma reach_st_requested: "requestVerifyWork (demo_env bob 1000) MIN_REGISTRATION_FEE 1 42 st_bob
     = Inr st_requested"
  by (simp add: requestVerifyWork_def whenNotPaused_def validWorkId_def noReentrancy_def
        scenario_defs Let_def receive_value_def and_then_def checked_add_def
        st_bob_def st_requested_def)

lemma reach_st_disputed: "fileDispute (demo_env bob 2000) DISPUTE_DEPOSIT 1 42 st_bob = Inr st_disputed"
  by (simp add: fileDispute_def validWorkId_def onlyRegisteredAuthor_def whenNotPaused_def
        receive_value_def and_then_def checked_add_def Let_def MAX_DISPUTES_PER_WORK_def
        st_bob_def st_disputed_def scenario_defs fun_upd_twist)

lemma reach_st_resolving: "requestDisputeResolution (demo_env bob 2100) 1 0 st_disputed = Inr st_resolving"
  by (simp add: requestDisputeResolution_def validWorkId_def whenNotPaused_def Let_def
        st_disputed_def st_resolving_def scenario_defs)

lemma reach_st_resolved: "disputeResolutionCallback (demo_env deployer 3000) 1 abi_42_42 [] st_resolving
     = Inr st_resolved"
  by (simp add: disputeResolutionCallback_def noReentrancy_def decide_winner_def
        credit_pendingRefunds_def and_then_def checked_add_def Let_def
        abi_decode_uint32_pair_def abi_42_42_def abi_word_def be_nat_def
        st_resolving_def st_resolved_def scenario_defs)

lemma reach_st_bob_paused: "pause (demo_env deployer 40) st_bob = Inr st_bob_paused"
  by (simp add: pause_def onlyOwner_def st_bob_def st_bob_paused_def scenario_defs)

lemma reach_st_rerequested: "requestDisputeResolution (demo_env2 alice 88500) 1 0 st_resolving
     = Inr st_rerequested"
  by (simp add: requestDisputeResolution_def validWorkId_def whenNotPaused_def Let_def
        demo_env2_def st_resolving_def st_rerequested_def scenario_defs)


lemma checked_add_ok: "unat a + unat b < 2 ^ 256 \<Longrightarrow> checked_add a b = Inr (a + b)"
  by (simp add: checked_add_def)


lemma unat_add_ok: "unat (a::uint256) + unat b < 2 ^ 256 \<Longrightarrow> unat (a + b) = unat a + unat b"
  by (rule unat_add_lem [THEN iffD1]) simp

lemma complete_verification_ok:
  assumes "unat (pendingRefunds s (requester (verificationRequests s requestId)))
             + unat (v_depositAmount (verificationRequests s requestId)) < 2 ^ 256"
  shows "\<exists>s'. complete_verification requestId isMatch s = Inr s'
     \<and> verificationRequests s' = (verificationRequests s)(requestId :=
          (verificationRequests s requestId)\<lparr>completed := True\<rparr>)
     \<and> works s' = (if isMatch
          then (works s)(v_workId (verificationRequests s requestId) :=
                 (works s (v_workId (verificationRequests s requestId)))\<lparr>verified := True\<rparr>)
          else works s)
     \<and> pendingRefunds s' = (pendingRefunds s)(requester (verificationRequests s requestId) :=
          pendingRefunds s (requester (verificationRequests s requestId))
            + v_depositAmount (verificationRequests s requestId))"
  using assms
  by (cases "v_depositAmount (verificationRequests s requestId) = 0")
     (auto simp: complete_verification_def Let_def emit_def and_then_def word_gt_0
        credit_pendingRefunds_def checked_add_ok)

section \<open>Verification callback\<close>

text \<open>
  C5. When \<^verbatim>\<open>verificationCallback\<close> is called with a proof that the FHE library
  accepts and a payload that decodes to a boolean, on a request that is neither completed
  nor refunded (and the credit does not overflow 256 bits), it succeeds; it marks the
  request completed, sets the target work's \<^verbatim>\<open>verified\<close> flag exactly when the decoded
  result is a match and leaves every work as it was otherwise, and adds the full deposit
  to the requester's \<^verbatim>\<open>pendingRefunds\<close> whatever the result.
\<close>

theorem verificationCallback_completes:
  fixes env requestId cleartexts decryptionProof s isMatch
  defines "r \<equiv> verificationRequests s requestId"
  assumes "fhe_checkSignatures env requestId cleartexts decryptionProof"
      and "abi_decode_bool cleartexts = Inr isMatch"
      and "\<not> completed r" and "\<not> refunded r"
      and "unat (pendingRefunds s (requester r)) + unat (v_depositAmount r) < 2 ^ 256"
  shows "\<exists>s'. verificationCallback env requestId cleartexts decryptionProof s = Inr s'
     \<and> verificationRequests s' = (verificationRequests s)(requestId := r\<lparr>completed := True\<rparr>)
     \<and> works s' = (if isMatch
          then (works s)(v_workId r := (works s (v_workId r))\<lparr>verified := True\<rparr>)
          else works s)
     \<and> pendingRefunds s' = (pendingRefunds s)(requester r :=
          pendingRefunds s (requester r) + v_depositAmount r)
     \<and> unat (pendingRefunds s' (requester r)) =
          unat (pendingRefunds s (requester r)) + unat (v_depositAmount r)"
proof -
  from assms(6) obtain s' where
    "complete_verification requestId isMatch s = Inr s'"
    "verificationRequests s' = (verificationRequests s)(requestId := r\<lparr>completed := True\<rparr>)"
    "works s' = (if isMatch
          then (works s)(v_workId r := (works s (v_workId r))\<lparr>verified := True\<rparr>)
          else works s)"
    "pendingRefunds s' = (pendingRefunds s)(requester r :=
          pendingRefunds s (requester r) + v_depositAmount r)"
    unfolding r_def using complete_verification_ok [of s requestId isMatch] by blast
  moreover have "verificationCallback env requestId cleartexts decryptionProof s
      = complete_verification requestId isMatch s"
    using assms(2,3,4) by (simp add: verificationCallback_def and_then_def r_def)
  ultimately show ?thesis
    using assms(6) by (simp add: unat_add_ok)
qed

theorem verificationCallback_completes_witness:
  "fhe_checkSignatures (demo_env deployer 1500) 1 abi_true []
   \<and> abi_decode_bool abi_true = Inr True
   \<and> \<not> completed (verificationRequests st_requested 1)
   \<and> \<not> refunded (verificationRequests st_requested 1)
   \<and> (\<exists>s'. verificationCallback (demo_env deployer 1500) 1 abi_true [] st_requested = Inr s'
        \<and> verified (works s' 1) \<and> completed (verificationRequests s' 1)
        \<and> pendingRefunds s' bob = MIN_REGISTRATION_FEE)"
proof -
  have h1: "fhe_checkSignatures (demo_env deployer 1500) 1 abi_true []"
    by (simp add: demo_env_def)
  have h2: "abi_decode_bool abi_true = Inr True"
    by (simp add: abi_decode_bool_def abi_true_def abi_word_def be_nat_def)
  have h3: "\<not> completed (verificationRequests st_requested 1)"
    and h4: "\<not> refunded (verificationRequests st_requested 1)"
    by (simp_all add: st_requested_def)
  have h5: "unat (pendingRefunds st_requested (requester (verificationRequests st_requested 1)))
      + unat (v_depositAmount (verificationRequests st_requested 1)) < 2 ^ 256"
    by (simp add: st_requested_def scenario_defs)
  from verificationCallback_completes [OF h1 h2 h3 h4 h5]
  show ?thesis using h1 h2 h3 h4
    by (auto simp: st_requested_def scenario_defs)
qed

text \<open>
  C1. The two ways of finalizing a verification request are not mutually exclusive in
  one order. In the scenario, Bob claims the timeout of request 1 after the deadline
  and is paid his deposit by direct transfer; the oracle's callback for the same
  request, arriving later with a valid proof, still succeeds, because it checks
  \<^verbatim>\<open>completed\<close> but not \<^verbatim>\<open>refunded\<close>. The request ends with both flags set and
  Bob's escrow balance holds the deposit a second time; his withdrawal then empties the
  contract, while \<^verbatim>\<open>platformFees\<close> still records the registration fee.
\<close>

theorem timeout_then_callback_pays_twice:
  "claimVerificationTimeout (demo_env bob 4601) 1 st_requested = Inr st_timed_out
   \<and> this_balance st_timed_out = this_balance st_requested - MIN_REGISTRATION_FEE
   \<and> refunded (verificationRequests st_timed_out 1)
   \<and> verificationCallback (demo_env deployer 5000) 1 abi_true [] st_timed_out
        = Inr st_double_paid
   \<and> completed (verificationRequests st_double_paid 1)
   \<and> refunded (verificationRequests st_double_paid 1)
   \<and> pendingRefunds st_double_paid bob = MIN_REGISTRATION_FEE
   \<and> withdrawRefund (demo_env bob 6000) st_double_paid = Inr st_drained
   \<and> this_balance st_drained = 0
   \<and> platformFees st_drained = MIN_REGISTRATION_FEE"
proof -
  have a: "claimVerificationTimeout (demo_env bob 4601) 1 st_requested = Inr st_timed_out"
    by (simp add: claimVerificationTimeout_def noReentrancy_def call_value_def
          and_then_def checked_add_def Let_def VERIFICATION_TIMEOUT_def
          st_requested_def st_timed_out_def scenario_defs)
  have b: "verificationCallback (demo_env deployer 5000) 1 abi_true [] st_timed_out
        = Inr st_double_paid"
    by (simp add: verificationCallback_def complete_verification_def
          credit_pendingRefunds_def and_then_def checked_add_def Let_def
          abi_decode_bool_def abi_true_def abi_word_def be_nat_def
          st_timed_out_def st_double_paid_def scenario_defs)
  have c: "withdrawRefund (demo_env bob 6000) st_double_paid = Inr st_drained"
    by (simp add: withdrawRefund_def noReentrancy_def call_value_def Let_def
          st_double_paid_def st_drained_def scenario_defs)
  have d: "this_balance st_timed_out = this_balance st_requested - MIN_REGISTRATION_FEE"
    "refunded (verificationRequests st_timed_out 1)"
    "completed (verificationRequests st_double_paid 1)"
    "refunded (verificationRequests st_double_paid 1)"
    "pendingRefunds st_double_paid bob = MIN_REGISTRATION_FEE"
    "this_balance st_drained = 0"
    "platformFees st_drained = MIN_REGISTRATION_FEE"
    by (simp_all add: st_requested_def st_timed_out_def st_double_paid_def st_drained_def
          scenario_defs)
  from a b c d show ?thesis by simp
qed

text \<open>
  The opposite order is rejected: once the callback has completed request 1, Bob's
  timeout claim fails.
\<close>

lemma callback_then_timeout_rejected:
  "claimVerificationTimeout (demo_env bob 4601) 1 st_verified
     = Inl (Revert ''AC: Already completed'')"
  by (simp add: claimVerificationTimeout_def noReentrancy_def Let_def st_verified_def
        scenario_defs)

section \<open>Withdrawal and verification timeout\<close>



text \<open>
  C4 (as amended). Called from outside by anyone but the requester,
  \<^verbatim>\<open>claimVerificationTimeout\<close> fails with "AC: Not requester". Called by the requester
  on a request that is neither completed nor refunded (and whose deadline fits 256
  bits), it fails with "AC: Timeout not reached" exactly when the block time does not
  strictly exceed \<^verbatim>\<open>requestTimestamp + VERIFICATION_TIMEOUT\<close>; it succeeds exactly when
  the time strictly exceeds the deadline and the transfer of the deposit to the caller,
  if the deposit is positive, is accepted; it fails with "AC: Refund failed" exactly
  when the time exceeds the deadline and that transfer is rejected. The transfer is issued after the request is
  marked refunded and with \<^verbatim>\<open>pendingRefunds\<close> untouched; with a recipient that leaves the
  contract's state alone, the call ends with the request marked refunded, the deposit
  gone from the contract's balance and \<^verbatim>\<open>pendingRefunds\<close> as it was.
\<close>

theorem claimVerificationTimeout_spec:
  fixes env requestId s
  defines "r \<equiv> verificationRequests s requestId"
    and "s1 \<equiv> s\<lparr>locked := True,
          verificationRequests := (verificationRequests s)(requestId :=
            (verificationRequests s requestId)\<lparr>refunded := True\<rparr>)\<rparr>"
    and "res \<equiv> claimVerificationTimeout env requestId s"
  assumes "\<not> locked s"
  shows "(requester r \<noteq> msg_sender env \<longrightarrow> res = Inl (Revert ''AC: Not requester''))
   \<and> (requester r = msg_sender env \<and> \<not> completed r \<and> \<not> refunded r
        \<and> unat (v_requestTimestamp r) + unat VERIFICATION_TIMEOUT < 2 ^ 256 \<longrightarrow>
        (res = Inl (Revert ''AC: Timeout not reached'')
           \<longleftrightarrow> \<not> block_timestamp env > v_requestTimestamp r + VERIFICATION_TIMEOUT)
      \<and> ((\<exists>s'. res = Inr s')
           \<longleftrightarrow> block_timestamp env > v_requestTimestamp r + VERIFICATION_TIMEOUT
               \<and> (v_depositAmount r = 0
                    \<or> fst (call_value env (msg_sender env) (v_depositAmount r) s1)))
      \<and> (block_timestamp env > v_requestTimestamp r + VERIFICATION_TIMEOUT
           \<and> v_depositAmount r \<noteq> 0
           \<and> \<not> fst (call_value env (msg_sender env) (v_depositAmount r) s1)
          \<longrightarrow> res = Inl (Revert ''AC: Refund failed''))
      \<and> (res = Inl (Revert ''AC: Refund failed'')
           \<longleftrightarrow> block_timestamp env > v_requestTimestamp r + VERIFICATION_TIMEOUT
               \<and> v_depositAmount r \<noteq> 0
               \<and> \<not> fst (call_value env (msg_sender env) (v_depositAmount r) s1))
      \<and> (\<forall>s'. res = Inr s' \<longrightarrow>
            s' = emit (TimeoutRefund (msg_sender env) (v_depositAmount r) requestId)
                   ((if v_depositAmount r = 0 then s1
                     else snd (call_value env (msg_sender env) (v_depositAmount r) s1))
                    \<lparr>locked := False\<rparr>))
      \<and> refunded (verificationRequests s1 requestId)
      \<and> pendingRefunds s1 = pendingRefunds s
      \<and> (\<forall>s'. res = Inr s' \<and> (\<forall>to amount st. snd (recipient env to amount st) = st) \<longrightarrow>
            refunded (verificationRequests s' requestId)
          \<and> pendingRefunds s' = pendingRefunds s
          \<and> this_balance s' = this_balance s - v_depositAmount r))"
proof -
  have quiet: "st' = st\<lparr>this_balance := this_balance st - amount\<rparr>"
    if "\<forall>to amount st. snd (recipient env to amount st) = st"
      and "call_value env to amount st = (True, st')" for to amount st st'
    using that(2) that(1) [rule_format, of to amount
        "st\<lparr>this_balance := this_balance st - amount\<rparr>"]
    by (auto simp: call_value_def split: if_splits prod.splits bool.splits)
  show ?thesis
    using assms(4) unfolding r_def s1_def res_def
    by (auto simp: claimVerificationTimeout_def noReentrancy_def Let_def and_then_def
          checked_add_ok word_gt_0 emit_def split: prod.splits dest!: quiet)
qed

theorem claimVerificationTimeout_spec_witness:
  "\<not> locked st_requested
   \<and> requester (verificationRequests st_requested 1) = msg_sender (demo_env bob 4601)
   \<and> \<not> completed (verificationRequests st_requested 1)
   \<and> \<not> refunded (verificationRequests st_requested 1)
   \<and> unat (v_requestTimestamp (verificationRequests st_requested 1))
        + unat VERIFICATION_TIMEOUT < 2 ^ 256
   \<and> block_timestamp (demo_env bob 4601)
        > v_requestTimestamp (verificationRequests st_requested 1) + VERIFICATION_TIMEOUT
   \<and> (\<exists>s'. claimVerificationTimeout (demo_env bob 4601) 1 st_requested = Inr s')
   \<and> claimVerificationTimeout (demo_env bob 4600) 1 st_requested
        = Inl (Revert ''AC: Timeout not reached'')
   \<and> claimVerificationTimeout (demo_env alice 4601) 1 st_requested
        = Inl (Revert ''AC: Not requester'')
   \<and> claimVerificationTimeout (rejecting_env bob 4601) 1 st_requested
        = Inl (Revert ''AC: Refund failed'')"
proof -
  have h: "\<not> locked st_requested"
    by (simp add: st_requested_def)
  from claimVerificationTimeout_spec [OF h, of 1 "demo_env bob 4601"]
       claimVerificationTimeout_spec [OF h, of 1 "demo_env bob 4600"]
       claimVerificationTimeout_spec [OF h, of 1 "demo_env alice 4601"]
       claimVerificationTimeout_spec [OF h, of 1 "rejecting_env bob 4601"]
  show ?thesis using h
    by (simp add: call_value_def st_requested_def scenario_defs VERIFICATION_TIMEOUT_def)
qed

text \<open>
  C4 as stated fails: after the deadline, with every stated precondition met, the call
  of a requester who rejects the transfer does not succeed.
\<close>

theorem claimVerificationTimeout_counterexample:
  "\<not> locked st_requested
   \<and> requester (verificationRequests st_requested 1) = msg_sender (rejecting_env bob 4601)
   \<and> \<not> completed (verificationRequests st_requested 1)
   \<and> \<not> refunded (verificationRequests st_requested 1)
   \<and> block_timestamp (rejecting_env bob 4601)
        > v_requestTimestamp (verificationRequests st_requested 1) + VERIFICATION_TIMEOUT
   \<and> claimVerificationTimeout (rejecting_env bob 4601) 1 st_requested
        = Inl (Revert ''AC: Refund failed'')"
  by (simp add: claimVerificationTimeout_def noReentrancy_def Let_def and_then_def
        checked_add_def call_value_def VERIFICATION_TIMEOUT_def
        st_requested_def scenario_defs)

section \<open>Normal forms of the dispute functions\<close>



lemma credit_if_positive:
  "(if v > 0 then credit_pendingRefunds a v s else Inr s) =
     (if unat (pendingRefunds s a) + unat v < 2 ^ 256
      then Inr (s\<lparr>pendingRefunds := (pendingRefunds s)(a := pendingRefunds s a + v)\<rparr>)
      else Inl Overflow)"
proof (cases "v = 0")
  case True
  have "unat (pendingRefunds s a) < 2 ^ 256"
    using unsigned_less [of "pendingRefunds s a"] by simp
  with True show ?thesis by simp
next
  case False
  then show ?thesis
    by (simp add: word_gt_0 credit_pendingRefunds_def and_then_def checked_add_def)
qed

lemma disputeResolutionCallback_unfold:
  fixes env requestId cleartexts decryptionProof s
  defines "workId \<equiv> p_workId (pendingDecryptions s requestId)"
    and "disputeId \<equiv> p_disputeId (pendingDecryptions s requestId)"
  defines "dispute \<equiv> disputes s workId ! unat disputeId"
    and "work \<equiv> works s workId"
  shows "disputeResolutionCallback env requestId cleartexts decryptionProof s =
    (if locked s then Inl (Revert ''AC: Reentrant call'')
     else if \<not> fhe_checkSignatures env requestId cleartexts decryptionProof
       then Inl InvalidSignatures
     else if decryptionType (pendingDecryptions s requestId) \<noteq> DisputeResolution
       then Inl (Revert ''AC: Invalid callback'')
     else if \<not> unat disputeId < length (disputes s workId) then Inl OutOfBounds
     else if resolved dispute then Inl (Revert ''AC: Already resolved'')
     else case abi_decode_uint32_pair cleartexts of
       Inl e \<Rightarrow> Inl e
     | Inr (oh, ch) \<Rightarrow>
        (let cw = (oh = ch \<and> \<not> w_timestamp work \<le> d_timestamp dispute);
             w = (if cw then challenger dispute else registrant work)
         in if cw \<and> \<not> unat (wonDisputes (authors s (challenger dispute))) + 1 < 2 ^ 256
              then Inl Overflow
            else if \<not> unat (pendingRefunds s w) + unat (d_depositAmount dispute) < 2 ^ 256
              then Inl Overflow
            else Inr (emit (DisputeResolved workId disputeId w (d_depositAmount dispute))
                   (s\<lparr>authors := (if cw
                          then (authors s)(challenger dispute :=
                                 (authors s (challenger dispute))
                                   \<lparr>wonDisputes :=
                                      wonDisputes (authors s (challenger dispute)) + 1\<rparr>)
                          else authors s),
                       disputes := (disputes s)(workId :=
                          (disputes s workId)[unat disputeId :=
                             dispute\<lparr>resolved := True, winner := w\<rparr>]),
                       pendingRefunds := (pendingRefunds s)(w :=
                          pendingRefunds s w + d_depositAmount dispute)\<rparr>))))"
  unfolding workId_def disputeId_def dispute_def work_def
  by (simp add: disputeResolutionCallback_def noReentrancy_def Let_def and_then_def
      credit_if_positive decide_winner_def checked_add_def emit_def
      split: sum.splits prod.splits)

lemma small_count_no_overflow:
  "(c::uint256) < MAX_DISPUTES_PER_WORK \<Longrightarrow> unat c + 1 < 2 ^ 256"
  by (simp add: MAX_DISPUTES_PER_WORK_def word_less_nat_alt)

lemma fileDispute_unfold:
  fixes env msg_value workId' challengerContentHash' s
  defines "work \<equiv> works s workId'"
    and "sender \<equiv> msg_sender env"
  shows "fileDispute env msg_value workId' challengerContentHash' s =
    (if \<not> (workId' > 0 \<and> workId' \<le> workCounter s) then Inl (Revert ''AC: Invalid work ID'')
     else if \<not> registered (authors s sender) then Inl (Revert ''AC: Author not registered'')
     else if paused s then Inl (Revert ''AC: Contract paused'')
     else if \<not> msg_value \<ge> DISPUTE_DEPOSIT
       then Inl (Revert ''AC: Insufficient dispute deposit'')
     else if \<not> challengerContentHash' > 0 then Inl (Revert ''AC: Invalid content hash'')
     else if registrant work = sender then Inl (Revert ''AC: Cannot dispute own work'')
     else if \<not> disputeCount work < MAX_DISPUTES_PER_WORK
       then Inl (Revert ''AC: Max disputes reached'')
     else if \<not> unat (totalDisputes (authors s sender)) + 1 < 2 ^ 256 then Inl Overflow
     else if \<not> unat (totalDisputes (authors s (registrant work))) + 1 < 2 ^ 256
       then Inl Overflow
     else Inr (emit (DisputeFiled workId' sender (of_nat (length (disputes s workId')))
                       msg_value)
            (s\<lparr>works := (works s)(workId' :=
                   work\<lparr>disputed := True, disputeCount := disputeCount work + 1\<rparr>),
                disputes := (disputes s)(workId' := disputes s workId' @
                   [\<lparr>challenger = sender,
                     challengerContentHash = fhe_asEuint32 env challengerContentHash',
                     d_timestamp = block_timestamp env, d_depositAmount = msg_value,
                     resolved = False, winner = 0, decryptionRequestId = 0,
                     d_requestTimestamp = 0\<rparr>]),
                authors := (authors s)
                  (sender := (authors s sender)
                     \<lparr>totalDisputes := totalDisputes (authors s sender) + 1\<rparr>,
                   registrant work := (authors s (registrant work))
                     \<lparr>totalDisputes := totalDisputes (authors s (registrant work)) + 1\<rparr>),
                this_balance := this_balance s + msg_value\<rparr>)))"
  unfolding work_def sender_def
  using small_count_no_overflow [of "disputeCount (works s workId')"]
  by (simp add: fileDispute_def validWorkId_def onlyRegisteredAuthor_def whenNotPaused_def
      receive_value_def Let_def and_then_def checked_add_def emit_def)

lemma requestDisputeResolution_unfold:
  fixes env workId' disputeId' s
  defines "dispute \<equiv> disputes s workId' ! unat disputeId'"
    and "requestId \<equiv> fhe_requestDecryption env
          [encryptedContentHash (works s workId'),
           challengerContentHash (disputes s workId' ! unat disputeId')]"
  shows "requestDisputeResolution env workId' disputeId' s =
    (if \<not> (workId' > 0 \<and> workId' \<le> workCounter s) then Inl (Revert ''AC: Invalid work ID'')
     else if paused s then Inl (Revert ''AC: Contract paused'')
     else if \<not> unat disputeId' < length (disputes s workId')
       then Inl (Revert ''AC: Invalid dispute ID'')
     else if resolved dispute then Inl (Revert ''AC: Dispute already resolved'')
     else if \<not> (msg_sender env = challenger dispute
                \<or> msg_sender env = registrant (works s workId'))
       then Inl (Revert ''AC: Not authorized'')
     else Inr (emit (DecryptionRequested requestId DisputeResolution workId')
            (s\<lparr>disputes := (disputes s)(workId' :=
                   (disputes s workId')[unat disputeId' :=
                      dispute\<lparr>decryptionRequestId := requestId,
                              d_requestTimestamp := block_timestamp env\<rparr>]),
                pendingDecryptions := (pendingDecryptions s)(requestId :=
                   \<lparr>p_workId = workId', p_disputeId = disputeId',
                    decryptionType = DisputeResolution, initiator = msg_sender env,
                    p_timestamp = block_timestamp env\<rparr>)\<rparr>)))"
  unfolding dispute_def requestId_def
  by (simp add: requestDisputeResolution_def validWorkId_def whenNotPaused_def Let_def
      emit_def)

lemma disputeResolutionCallback_credit:
  fixes env requestId cleartexts decryptionProof s s'
  defines "workId \<equiv> p_workId (pendingDecryptions s requestId)"
    and "disputeId \<equiv> p_disputeId (pendingDecryptions s requestId)"
  defines "dispute \<equiv> disputes s workId ! unat disputeId"
  assumes "disputeResolutionCallback env requestId cleartexts decryptionProof s = Inr s'"
  shows "\<exists>w. (w = challenger dispute \<or> w = registrant (works s workId))
     \<and> unat disputeId < length (disputes s workId)
     \<and> disputes s' workId ! unat disputeId = dispute\<lparr>resolved := True, winner := w\<rparr>
     \<and> pendingRefunds s' = (pendingRefunds s)(w :=
          pendingRefunds s w + d_depositAmount dispute)
     \<and> unat (pendingRefunds s' w) = unat (pendingRefunds s w) + unat (d_depositAmount dispute)
     \<and> this_balance s' = this_balance s"
proof -
  from assms(4) have ok: "unat disputeId < length (disputes s workId)"
    unfolding workId_def disputeId_def
    by (simp add: disputeResolutionCallback_unfold split: if_splits)
  from assms(4) obtain oh ch where dec: "abi_decode_uint32_pair cleartexts = Inr (oh, ch)"
    by (auto simp: disputeResolutionCallback_unfold split: if_splits sum.splits)
  define w where "w = (if oh = ch \<and> \<not> w_timestamp (works s workId) \<le> d_timestamp dispute
                       then challenger dispute else registrant (works s workId))"
  from assms(4) dec
  have fit: "unat (pendingRefunds s w) + unat (d_depositAmount dispute) < 2 ^ 256"
    and st: "disputes s' = (disputes s)(workId :=
               (disputes s workId)[unat disputeId := dispute\<lparr>resolved := True, winner := w\<rparr>])"
            "pendingRefunds s' = (pendingRefunds s)(w :=
               pendingRefunds s w + d_depositAmount dispute)"
            "this_balance s' = this_balance s"
    unfolding workId_def disputeId_def dispute_def w_def
    by (auto simp: disputeResolutionCallback_unfold Let_def emit_def split: if_splits)
  have "w = challenger dispute \<or> w = registrant (works s workId)"
    by (simp add: w_def)
  moreover have "disputes s' workId ! unat disputeId = dispute\<lparr>resolved := True, winner := w\<rparr>"
    using ok by (simp add: st(1))
  moreover have "unat (pendingRefunds s' w)
      = unat (pendingRefunds s w) + unat (d_depositAmount dispute)"
    using fit by (simp add: st(2) unat_add_ok)
  ultimately show ?thesis using ok st(2,3) by blast
qed

lemma fileDispute_InrD:
  assumes "fileDispute env v workId' h s = Inr s1"
  shows "disputes s1 workId' = disputes s workId' @
          [\<lparr>challenger = msg_sender env,
              challengerContentHash = fhe_asEuint32 env h,
              d_timestamp = block_timestamp env, d_depositAmount = v,
              resolved = False, winner = 0, decryptionRequestId = 0,
              d_requestTimestamp = 0\<rparr>]"
    "pendingRefunds s1 = pendingRefunds s"
    "this_balance s1 = this_balance s + v"
    "registrant (works s1 workId') = registrant (works s workId')"
  using assms
  by (auto simp: fileDispute_unfold emit_def split: if_splits)

lemma requestDisputeResolution_InrD:
  assumes "requestDisputeResolution env workId' disputeId' s = Inr s2"
  defines "rid \<equiv> fhe_requestDecryption env
      [encryptedContentHash (works s workId'),
       challengerContentHash (disputes s workId' ! unat disputeId')]"
  shows "disputes s2 workId' = (disputes s workId')[unat disputeId' :=
           (disputes s workId' ! unat disputeId')
             \<lparr>decryptionRequestId := rid, d_requestTimestamp := block_timestamp env\<rparr>]"
    "p_workId (pendingDecryptions s2 rid) = workId'"
    "p_disputeId (pendingDecryptions s2 rid) = disputeId'"
    "pendingRefunds s2 = pendingRefunds s"
    "this_balance s2 = this_balance s"
    "works s2 = works s"
    "unat disputeId' < length (disputes s workId')"
  using assms(1) unfolding rid_def
  by (auto simp: requestDisputeResolution_unfold emit_def split: if_splits)

section \<open>Dispute resolution\<close>

text \<open>
  C2. When \<^verbatim>\<open>disputeResolutionCallback\<close> is called from outside with a proof the FHE
  library accepts, for a request id that the contract maps to an existing, unresolved
  dispute, and a payload that decodes to two 32-bit values (and the checked additions do
  not overflow), it succeeds and the winner is: the work's registrant if the two values
  differ; if they are equal, the registrant when \<^verbatim>\<open>work.timestamp <= dispute.timestamp\<close> and
  the challenger otherwise. The challenger's \<^verbatim>\<open>wonDisputes\<close> goes up by one exactly in the
  branch where the challenger wins, the winner's \<^verbatim>\<open>pendingRefunds\<close> is credited with the
  dispute's deposit, and the dispute is marked resolved with the winner recorded.
\<close>

theorem disputeResolutionCallback_winner:
  fixes env requestId cleartexts decryptionProof s originalHash challengerHash
  defines "workId \<equiv> p_workId (pendingDecryptions s requestId)"
    and "disputeId \<equiv> p_disputeId (pendingDecryptions s requestId)"
  defines "dispute \<equiv> disputes s workId ! unat disputeId"
    and "work \<equiv> works s workId"
  defines "win \<equiv> (if originalHash \<noteq> challengerHash then registrant work
                   else if w_timestamp work \<le> d_timestamp dispute then registrant work
                   else challenger dispute)"
    and "challenger_wins \<equiv> originalHash = challengerHash
                           \<and> d_timestamp dispute < w_timestamp work"
  assumes "\<not> locked s"
    and "fhe_checkSignatures env requestId cleartexts decryptionProof"
    and "decryptionType (pendingDecryptions s requestId) = DisputeResolution"
    and "unat disputeId < length (disputes s workId)"
    and "\<not> resolved dispute"
    and "abi_decode_uint32_pair cleartexts = Inr (originalHash, challengerHash)"
    and "challenger_wins \<longrightarrow> unat (wonDisputes (authors s (challenger dispute))) + 1 < 2 ^ 256"
    and "unat (pendingRefunds s win) + unat (d_depositAmount dispute) < 2 ^ 256"
  shows "\<exists>s'. disputeResolutionCallback env requestId cleartexts decryptionProof s = Inr s'
     \<and> disputes s' = (disputes s)(workId :=
          (disputes s workId)[unat disputeId := dispute\<lparr>resolved := True, winner := win\<rparr>])
     \<and> resolved (disputes s' workId ! unat disputeId)
     \<and> winner (disputes s' workId ! unat disputeId) = win
     \<and> authors s' = (if challenger_wins
          then (authors s)(challenger dispute := (authors s (challenger dispute))
                 \<lparr>wonDisputes := wonDisputes (authors s (challenger dispute)) + 1\<rparr>)
          else authors s)
     \<and> pendingRefunds s' = (pendingRefunds s)(win :=
          pendingRefunds s win + d_depositAmount dispute)
     \<and> unat (pendingRefunds s' win) =
          unat (pendingRefunds s win) + unat (d_depositAmount dispute)"
proof -
  have cw: "challenger_wins \<longleftrightarrow>
      originalHash = challengerHash \<and> \<not> w_timestamp work \<le> d_timestamp dispute"
    by (auto simp: challenger_wins_def)
  show ?thesis
    using assms(7-14)
    unfolding cw unfolding workId_def disputeId_def dispute_def work_def win_def
    by (auto simp: disputeResolutionCallback_unfold Let_def emit_def unat_add_ok)
qed

theorem disputeResolutionCallback_winner_witness:
  "\<not> locked st_resolving
   \<and> fhe_checkSignatures (demo_env deployer 3000) 1 abi_42_42 []
   \<and> decryptionType (pendingDecryptions st_resolving 1) = DisputeResolution
   \<and> unat (p_disputeId (pendingDecryptions st_resolving 1))
        < length (disputes st_resolving (p_workId (pendingDecryptions st_resolving 1)))
   \<and> \<not> resolved (disputes st_resolving 1 ! 0)
   \<and> abi_decode_uint32_pair abi_42_42 = Inr (42, 42)
   \<and> w_timestamp (works st_resolving 1) \<le> d_timestamp (disputes st_resolving 1 ! 0)
   \<and> (\<exists>s'. disputeResolutionCallback (demo_env deployer 3000) 1 abi_42_42 [] st_resolving
              = Inr s'
          \<and> winner (disputes s' 1 ! 0) = alice
          \<and> wonDisputes (authors s' bob) = 0
          \<and> pendingRefunds s' alice = DISPUTE_DEPOSIT)
   \<and> d_timestamp (disputes st_resolving_late 1 ! 0) < w_timestamp (works st_resolving_late 1)
   \<and> (\<exists>s'. disputeResolutionCallback (demo_env deployer 3000) 1 abi_42_42 []
              st_resolving_late = Inr s'
          \<and> winner (disputes s' 1 ! 0) = bob
          \<and> wonDisputes (authors s' bob) = 1
          \<and> pendingRefunds s' bob = DISPUTE_DEPOSIT)"
proof -
  have h1: "\<not> locked st_resolving"
    and h2: "fhe_checkSignatures (demo_env deployer 3000) 1 abi_42_42 []"
    and h3: "decryptionType (pendingDecryptions st_resolving 1) = DisputeResolution"
    and h4: "unat (p_disputeId (pendingDecryptions st_resolving 1))
        < length (disputes st_resolving (p_workId (pendingDecryptions st_resolving 1)))"
    and h5: "\<not> resolved (disputes st_resolving (p_workId (pendingDecryptions st_resolving 1))
        ! unat (p_disputeId (pendingDecryptions st_resolving 1)))"
    by (simp_all add: st_resolving_def demo_env_def)
  have h6: "abi_decode_uint32_pair abi_42_42 = Inr (42, 42)"
    by (simp add: abi_decode_uint32_pair_def abi_42_42_def abi_word_def be_nat_def)
  have k1: "\<not> locked st_resolving_late"
    and k3: "decryptionType (pendingDecryptions st_resolving_late 1) = DisputeResolution"
    and k4: "unat (p_disputeId (pendingDecryptions st_resolving_late 1))
        < length (disputes st_resolving_late (p_workId (pendingDecryptions st_resolving_late 1)))"
    and k5: "\<not> resolved (disputes st_resolving_late
          (p_workId (pendingDecryptions st_resolving_late 1))
        ! unat (p_disputeId (pendingDecryptions st_resolving_late 1)))"
    by (simp_all add: st_resolving_late_def st_resolving_def)
  have first: "w_timestamp (works st_resolving 1) \<le> d_timestamp (disputes st_resolving 1 ! 0)
     \<and> (\<exists>s'. disputeResolutionCallback (demo_env deployer 3000) 1 abi_42_42 [] st_resolving
              = Inr s'
          \<and> winner (disputes s' 1 ! 0) = alice
          \<and> wonDisputes (authors s' bob) = 0
          \<and> pendingRefunds s' alice = DISPUTE_DEPOSIT)"
    using disputeResolutionCallback_winner [OF h1 h2 h3 h4 h5 h6]
    by (auto simp: st_resolving_def scenario_defs)
  have second: "d_timestamp (disputes st_resolving_late 1 ! 0)
        < w_timestamp (works st_resolving_late 1)
     \<and> (\<exists>s'. disputeResolutionCallback (demo_env deployer 3000) 1 abi_42_42 []
              st_resolving_late = Inr s'
          \<and> winner (disputes s' 1 ! 0) = bob
          \<and> wonDisputes (authors s' bob) = 1
          \<and> pendingRefunds s' bob = DISPUTE_DEPOSIT)"
    using disputeResolutionCallback_winner [OF k1 h2 k3 k4 k5 h6]
    by (auto simp: st_resolving_late_def st_resolving_def scenario_defs)
  from first second show ?thesis using h1 h2 h3 h4 h5 h6
    by (simp add: st_resolving_def)
qed

text \<open>
  C3. A dispute whose resolution has already been requested can be requested again. In
  \<open>st_resolving\<close> the dispute on work 1 holds request id 1 with request time 2100 and
  is not resolved, so Bob could claim its timeout once the block time passes
  \<open>2100 + DISPUTE_TIMEOUT = 88500\<close>: at 88501 his claim succeeds. But
  \<^verbatim>\<open>requestDisputeResolution\<close> only checks \<^verbatim>\<open>resolved\<close>: called by the registrant at time
  88500 it succeeds instead of failing, replaces the stored request id and restarts the
  clock, and Bob's claim at 88501 is now refused with "AC: Timeout not reached".
\<close>

theorem rerequest_restarts_dispute_timeout:
  "decryptionRequestId (disputes st_resolving 1 ! 0) = 1
   \<and> d_requestTimestamp (disputes st_resolving 1 ! 0) = 2100
   \<and> \<not> resolved (disputes st_resolving 1 ! 0)
   \<and> claimDisputeTimeout (demo_env bob 88501) 1 0 st_resolving = Inr st_dispute_refunded
   \<and> requestDisputeResolution (demo_env2 alice 88500) 1 0 st_resolving = Inr st_rerequested
   \<and> decryptionRequestId (disputes st_rerequested 1 ! 0) = 2
   \<and> d_requestTimestamp (disputes st_rerequested 1 ! 0) = 88500
   \<and> claimDisputeTimeout (demo_env bob 88501) 1 0 st_rerequested
        = Inl (Revert ''AC: Timeout not reached'')"
proof -
  have a: "claimDisputeTimeout (demo_env bob 88501) 1 0 st_resolving = Inr st_dispute_refunded"
    by (simp add: claimDisputeTimeout_def noReentrancy_def call_value_def and_then_def
          checked_add_def Let_def DISPUTE_TIMEOUT_def st_resolving_def
          st_dispute_refunded_def scenario_defs)
  have b: "requestDisputeResolution (demo_env2 alice 88500) 1 0 st_resolving
      = Inr st_rerequested"
    by (simp add: requestDisputeResolution_def validWorkId_def whenNotPaused_def Let_def
          demo_env2_def st_resolving_def st_rerequested_def scenario_defs)
  have c: "claimDisputeTimeout (demo_env bob 88501) 1 0 st_rerequested
      = Inl (Revert ''AC: Timeout not reached'')"
    by (simp add: claimDisputeTimeout_def noReentrancy_def and_then_def checked_add_def
          Let_def DISPUTE_TIMEOUT_def st_rerequested_def scenario_defs)
  have d: "decryptionRequestId (disputes st_resolving 1 ! 0) = 1"
    "d_requestTimestamp (disputes st_resolving 1 ! 0) = 2100"
    "\<not> resolved (disputes st_resolving 1 ! 0)"
    "decryptionRequestId (disputes st_rerequested 1 ! 0) = 2"
    "d_requestTimestamp (disputes st_rerequested 1 ! 0) = 88500"
    by (simp_all add: st_resolving_def st_rerequested_def)
  from a b c d show ?thesis by simp
qed

text \<open>
  The other checks of \<^verbatim>\<open>requestDisputeResolution\<close> are as the claim has them: on an
  existing dispute of a valid work, outside a pause, a resolved dispute is refused with
  "AC: Dispute already resolved", an unresolved one is refused with "AC: Not authorized"
  for a caller who is neither the challenger nor the registrant, and no call succeeds
  unless the dispute exists, is unresolved and the caller is one of the two.
\<close>

lemma requestDisputeResolution_checks:
  fixes env workId' disputeId' s
  defines "dispute \<equiv> disputes s workId' ! unat disputeId'"
    and "res \<equiv> requestDisputeResolution env workId' disputeId' s"
  defines "party \<equiv> msg_sender env = challenger dispute
                     \<or> msg_sender env = registrant (works s workId')"
    and "live \<equiv> workId' > 0 \<and> workId' \<le> workCounter s \<and> \<not> paused s
                   \<and> unat disputeId' < length (disputes s workId')"
  shows "((\<exists>s'. res = Inr s') \<longrightarrow> live \<and> \<not> resolved dispute \<and> party)
   \<and> (res = Inl (Revert ''AC: Dispute already resolved'') \<longleftrightarrow> live \<and> resolved dispute)
   \<and> (res = Inl (Revert ''AC: Not authorized'')
        \<longleftrightarrow> live \<and> \<not> resolved dispute \<and> \<not> party)"
  unfolding res_def party_def live_def dispute_def
  by (auto simp: requestDisputeResolution_unfold)

section \<open>Filing a dispute and the prize\<close>

text \<open>
  C6 (as amended). With the two \<^verbatim>\<open>totalDisputes\<close> counters below their maximum,
  \<^verbatim>\<open>fileDispute\<close> succeeds exactly when the work id is valid, the caller is a registered
  author, the contract is not paused, the deposit is at least \<^verbatim>\<open>DISPUTE_DEPOSIT\<close>, the
  challenger fingerprint is non-zero, the caller is not the work's registrant and the
  work's dispute count is strictly below \<^verbatim>\<open>MAX_DISPUTES_PER_WORK\<close>. A call by the
  registrant never succeeds, and fails with "AC: Cannot dispute own work" when the
  earlier checks pass; at the maximum count the call fails with "AC: Max disputes
  reached" when the earlier checks pass. On success a new unresolved dispute record is
  appended to the work's list, the work's dispute count goes up by one, its disputed
  flag is set, and the \<^verbatim>\<open>totalDisputes\<close> counters of the challenger and of the registrant
  each go up by one.
\<close>

theorem fileDispute_spec:
  fixes env msg_value workId' challengerContentHash' s
  defines "work \<equiv> works s workId'"
    and "sender \<equiv> msg_sender env"
    and "res \<equiv> fileDispute env msg_value workId' challengerContentHash' s"
  defines "pre \<equiv> workId' > 0 \<and> workId' \<le> workCounter s \<and> registered (authors s sender)
                  \<and> \<not> paused s \<and> msg_value \<ge> DISPUTE_DEPOSIT \<and> challengerContentHash' > 0"
  assumes "unat (totalDisputes (authors s sender)) + 1 < 2 ^ 256"
    and "unat (totalDisputes (authors s (registrant work))) + 1 < 2 ^ 256"
  shows "((\<exists>s'. res = Inr s') \<longleftrightarrow>
            pre \<and> registrant work \<noteq> sender \<and> disputeCount work < MAX_DISPUTES_PER_WORK)
   \<and> (registrant work = sender \<longrightarrow> (\<exists>e. res = Inl e))
   \<and> (pre \<and> registrant work = sender \<longrightarrow> res = Inl (Revert ''AC: Cannot dispute own work''))
   \<and> (pre \<and> registrant work \<noteq> sender \<and> \<not> disputeCount work < MAX_DISPUTES_PER_WORK \<longrightarrow>
         res = Inl (Revert ''AC: Max disputes reached''))
   \<and> (\<forall>s'. res = Inr s' \<longrightarrow>
         disputes s' = (disputes s)(workId' := disputes s workId' @
            [\<lparr>challenger = sender,
              challengerContentHash = fhe_asEuint32 env challengerContentHash',
              d_timestamp = block_timestamp env, d_depositAmount = msg_value,
              resolved = False, winner = 0, decryptionRequestId = 0,
              d_requestTimestamp = 0\<rparr>])
       \<and> works s' = (works s)(workId' :=
            work\<lparr>disputed := True, disputeCount := disputeCount work + 1\<rparr>)
       \<and> unat (disputeCount (works s' workId')) = unat (disputeCount work) + 1
       \<and> authors s' = (authors s)
            (sender := (authors s sender)
               \<lparr>totalDisputes := totalDisputes (authors s sender) + 1\<rparr>,
             registrant work := (authors s (registrant work))
               \<lparr>totalDisputes := totalDisputes (authors s (registrant work)) + 1\<rparr>)
       \<and> pendingRefunds s' = pendingRefunds s
       \<and> this_balance s' = this_balance s + msg_value)"
proof -
  have cnt: "disputeCount work < MAX_DISPUTES_PER_WORK \<Longrightarrow>
      unat (disputeCount work + 1) = unat (disputeCount work) + 1"
    using small_count_no_overflow [of "disputeCount work"]
      unat_add_ok [of "disputeCount work" 1] by simp
  show ?thesis
    using assms(5,6) cnt
    unfolding res_def pre_def work_def sender_def
    by (auto simp: fileDispute_unfold emit_def)
qed

theorem fileDispute_spec_witness:
  "unat (totalDisputes (authors st_bob (msg_sender (demo_env bob 2000)))) + 1 < 2 ^ 256
   \<and> unat (totalDisputes (authors st_bob (registrant (works st_bob 1)))) + 1 < 2 ^ 256
   \<and> (1::uint256) > 0 \<and> 1 \<le> workCounter st_bob
   \<and> registered (authors st_bob (msg_sender (demo_env bob 2000)))
   \<and> \<not> paused st_bob \<and> DISPUTE_DEPOSIT \<ge> DISPUTE_DEPOSIT \<and> (42::uint32) > 0
   \<and> registrant (works st_bob 1) \<noteq> msg_sender (demo_env bob 2000)
   \<and> disputeCount (works st_bob 1) < MAX_DISPUTES_PER_WORK
   \<and> (\<exists>s'. fileDispute (demo_env bob 2000) DISPUTE_DEPOSIT 1 42 st_bob = Inr s'
         \<and> length (disputes s' 1) = 1 \<and> disputeCount (works s' 1) = 1
         \<and> disputed (works s' 1)
         \<and> totalDisputes (authors s' bob) = 1 \<and> totalDisputes (authors s' alice) = 1)
   \<and> registrant (works st_bob 1) = msg_sender (demo_env alice 2000)
   \<and> fileDispute (demo_env alice 2000) DISPUTE_DEPOSIT 1 42 st_bob
        = Inl (Revert ''AC: Cannot dispute own work'')"
proof -
  have h1: "unat (totalDisputes (authors st_bob (msg_sender (demo_env bob 2000)))) + 1
      < 2 ^ 256"
    and h2: "unat (totalDisputes (authors st_bob
       (registrant (works st_bob 1)))) + 1 < 2 ^ 256"
    and h3: "unat (totalDisputes (authors st_bob (msg_sender (demo_env alice 2000)))) + 1
      < 2 ^ 256"
    by (simp_all add: st_bob_def scenario_defs)
  from fileDispute_spec [OF h1 h2, of DISPUTE_DEPOSIT 42]
       fileDispute_spec [OF h3 h2, of DISPUTE_DEPOSIT 42]
  show ?thesis using h1 h2
    by (auto simp: st_bob_def scenario_defs MAX_DISPUTES_PER_WORK_def)
qed

text \<open>
  C6 as stated fails: in \<open>st_bob_paused\<close> every condition the claim lists holds for
  Bob's dispute of work 1, and the call is rejected because the contract is paused.
\<close>

theorem fileDispute_counterexample:
  "(1::uint256) > 0 \<and> 1 \<le> workCounter st_bob_paused
   \<and> DISPUTE_DEPOSIT \<ge> DISPUTE_DEPOSIT
   \<and> registered (authors st_bob_paused (msg_sender (demo_env bob 2000)))
   \<and> registrant (works st_bob_paused 1) \<noteq> msg_sender (demo_env bob 2000)
   \<and> disputeCount (works st_bob_paused 1) < MAX_DISPUTES_PER_WORK
   \<and> (42::uint32) > 0
   \<and> fileDispute (demo_env bob 2000) DISPUTE_DEPOSIT 1 42 st_bob_paused
        = Inl (Revert ''AC: Contract paused'')"
  by (simp add: fileDispute_def validWorkId_def onlyRegisteredAuthor_def whenNotPaused_def
        receive_value_def MAX_DISPUTES_PER_WORK_def st_bob_paused_def scenario_defs)

text \<open>
  C9. Take a dispute from filing to resolution: the challenger files it with deposit
  \<open>v\<close>, a party requests resolution, and the callback for the request id stored in the
  dispute succeeds. Then exactly one account is credited in \<^verbatim>\<open>pendingRefunds\<close>, the
  recorded winner, who is the challenger or the work's registrant; the credit is \<open>v\<close>,
  the challenger's own deposit, in both cases; and \<open>v\<close> is all the contract received.
  A winning challenger gets back what they paid in, a winning registrant gains \<open>v\<close>.
\<close>

theorem dispute_prize_is_challenger_deposit:
  assumes filed: "fileDispute env_f v workId' challengerContentHash' s = Inr s1"
    and idx: "unat disputeId' = length (disputes s workId')"
    and requested: "requestDisputeResolution env_r workId' disputeId' s1 = Inr s2"
    and resolved: "disputeResolutionCallback env_c
        (decryptionRequestId (disputes s2 workId' ! unat disputeId'))
        cleartexts decryptionProof s2 = Inr s3"
  shows "\<exists>w. (w = msg_sender env_f \<or> w = registrant (works s workId'))
     \<and> winner (disputes s3 workId' ! unat disputeId') = w
     \<and> d_depositAmount (disputes s3 workId' ! unat disputeId') = v
     \<and> pendingRefunds s3 = (pendingRefunds s)(w := pendingRefunds s w + v)
     \<and> unat (pendingRefunds s3 w) = unat (pendingRefunds s w) + unat v
     \<and> this_balance s3 = this_balance s + v"
proof -
  let ?d = "\<lparr>challenger = msg_sender env_f,
              challengerContentHash = fhe_asEuint32 env_f challengerContentHash',
              d_timestamp = block_timestamp env_f, d_depositAmount = v,
              resolved = False, winner = 0, decryptionRequestId = 0,
              d_requestTimestamp = 0\<rparr>"
  note s1 = fileDispute_InrD [OF filed]
  note s2 = requestDisputeResolution_InrD [OF requested]
  have nth1: "disputes s1 workId' ! unat disputeId' = ?d"
    using s1(1) idx by simp
  define rid where "rid = decryptionRequestId (disputes s2 workId' ! unat disputeId')"
  define d2 where "d2 = disputes s2 workId' ! unat disputeId'"
  have d2: "challenger d2 = msg_sender env_f" "d_depositAmount d2 = v"
    unfolding d2_def using s2(7) by (simp_all add: s2(1) nth1)
  have pd: "p_workId (pendingDecryptions s2 rid) = workId'"
    "p_disputeId (pendingDecryptions s2 rid) = disputeId'"
    unfolding rid_def using s2(7) s2(2,3) by (simp_all add: s2(1))
  have res': "disputeResolutionCallback env_c rid cleartexts decryptionProof s2 = Inr s3"
    using resolved by (simp add: rid_def)
  note cr = disputeResolutionCallback_credit [OF res', unfolded pd, folded d2_def]
  from cr
  obtain w where w: "w = challenger d2 \<or> w = registrant (works s2 workId')"
    "disputes s3 workId' ! unat disputeId' = d2\<lparr>resolved := True, winner := w\<rparr>"
    "pendingRefunds s3 = (pendingRefunds s2)(w := pendingRefunds s2 w + d_depositAmount d2)"
    "unat (pendingRefunds s3 w) = unat (pendingRefunds s2 w) + unat (d_depositAmount d2)"
    "this_balance s3 = this_balance s2"
    by (elim exE conjE)
  have "w = msg_sender env_f \<or> w = registrant (works s workId')"
    using w(1) by (simp add: d2 s2(6) s1(4))
  moreover have "winner (disputes s3 workId' ! unat disputeId') = w"
    and "d_depositAmount (disputes s3 workId' ! unat disputeId') = v"
    by (simp_all add: w(2) d2)
  moreover have "pendingRefunds s3 = (pendingRefunds s)(w := pendingRefunds s w + v)"
    and "unat (pendingRefunds s3 w) = unat (pendingRefunds s w) + unat v"
    using w(3,4) by (simp_all add: d2 s2(4) s1(2))
  moreover have "this_balance s3 = this_balance s + v"
    by (simp add: w(5) s2(5) s1(3))
  ultimately show ?thesis by blast
qed

theorem dispute_prize_is_challenger_deposit_witness:
  "fileDispute (demo_env bob 2000) DISPUTE_DEPOSIT 1 42 st_bob = Inr st_disputed
   \<and> unat (0::uint256) = length (disputes st_bob 1)
   \<and> requestDisputeResolution (demo_env bob 2100) 1 0 st_disputed = Inr st_resolving
   \<and> disputeResolutionCallback (demo_env deployer 3000)
        (decryptionRequestId (disputes st_resolving 1 ! unat (0::uint256))) abi_42_42 []
        st_resolving = Inr st_resolved
   \<and> (\<exists>w. (w = msg_sender (demo_env bob 2000) \<or> w = registrant (works st_bob 1))
        \<and> winner (disputes st_resolved 1 ! unat (0::uint256)) = w
        \<and> pendingRefunds st_resolved
            = (pendingRefunds st_bob)(w := pendingRefunds st_bob w + DISPUTE_DEPOSIT)
        \<and> this_balance st_resolved = this_balance st_bob + DISPUTE_DEPOSIT)"
proof -
  have idx: "unat (0::uint256) = length (disputes st_bob 1)"
    by (simp add: st_bob_def)
  have cb: "disputeResolutionCallback (demo_env deployer 3000)
        (decryptionRequestId (disputes st_resolving 1 ! unat (0::uint256))) abi_42_42 []
        st_resolving = Inr st_resolved"
    using reach_st_resolved by (simp add: st_resolving_def)
  from dispute_prize_is_challenger_deposit [OF reach_st_disputed idx reach_st_resolving cb]
  show ?thesis using reach_st_disputed idx reach_st_resolving cb by blast
qed

section \<open>The pause flag\<close>

lemma call_value_paused:
  assumes "\<forall>to amount st b. fst (recipient env to amount (st\<lparr>paused := b\<rparr>))
             = fst (recipient env to amount st)"
  shows "fst (call_value env to amount (st\<lparr>paused := b\<rparr>)) = fst (call_value env to amount st)"
proof -
  have eq: "st\<lparr>paused := b, this_balance := this_balance st - amount\<rparr>
      = st\<lparr>this_balance := this_balance st - amount\<rparr>\<lparr>paused := b\<rparr>"
    by (cases st) simp
  have "fst (recipient env to amount
        (st\<lparr>paused := b, this_balance := this_balance st - amount\<rparr>))
      = fst (recipient env to amount (st\<lparr>this_balance := this_balance st - amount\<rparr>))"
    unfolding eq using assms by blast
  then show ?thesis
    by (auto simp: call_value_def split: prod.splits bool.splits)
qed

lemma outcome_claimVerificationTimeout:
  "outcome (claimVerificationTimeout env requestId s) =
     (let r = verificationRequests s requestId in
      if locked s then Some (Revert ''AC: Reentrant call'')
      else if requester r \<noteq> msg_sender env then Some (Revert ''AC: Not requester'')
      else if completed r then Some (Revert ''AC: Already completed'')
      else if refunded r then Some (Revert ''AC: Already refunded'')
      else if \<not> unat (v_requestTimestamp r) + unat VERIFICATION_TIMEOUT < 2 ^ 256
        then Some Overflow
      else if \<not> block_timestamp env > v_requestTimestamp r + VERIFICATION_TIMEOUT
        then Some (Revert ''AC: Timeout not reached'')
      else if v_depositAmount r > 0
            \<and> \<not> fst (call_value env (msg_sender env) (v_depositAmount r)
                     (s\<lparr>locked := True,
                        verificationRequests := (verificationRequests s)(requestId :=
                          r\<lparr>refunded := True\<rparr>)\<rparr>))
        then Some (Revert ''AC: Refund failed'')
      else None)"
  by (auto simp: outcome_def claimVerificationTimeout_def noReentrancy_def Let_def
        and_then_def checked_add_def split: prod.splits)

lemma outcome_claimDisputeTimeout:
  "outcome (claimDisputeTimeout env workId' disputeId' s) =
     (let d = disputes s workId' ! unat disputeId' in
      if locked s then Some (Revert ''AC: Reentrant call'')
      else if \<not> unat disputeId' < length (disputes s workId')
        then Some (Revert ''AC: Invalid dispute ID'')
      else if challenger d \<noteq> msg_sender env then Some (Revert ''AC: Not challenger'')
      else if resolved d then Some (Revert ''AC: Already resolved'')
      else if decryptionRequestId d = 0 then Some (Revert ''AC: Resolution not requested'')
      else if \<not> unat (d_requestTimestamp d) + unat DISPUTE_TIMEOUT < 2 ^ 256
        then Some Overflow
      else if \<not> block_timestamp env > d_requestTimestamp d + DISPUTE_TIMEOUT
        then Some (Revert ''AC: Timeout not reached'')
      else if d_depositAmount d > 0
            \<and> \<not> fst (call_value env (msg_sender env) (d_depositAmount d)
                     (s\<lparr>locked := True,
                        disputes := (disputes s)(workId' :=
                          (disputes s workId')[unat disputeId' := d\<lparr>resolved := True\<rparr>])\<rparr>))
        then Some (Revert ''AC: Refund failed'')
      else None)"
  by (auto simp: outcome_def claimDisputeTimeout_def noReentrancy_def Let_def
        and_then_def checked_add_def split: prod.splits)

lemma outcome_withdrawRefund:
  "outcome (withdrawRefund env s) =
     (if locked s then Some (Revert ''AC: Reentrant call'')
      else if \<not> pendingRefunds s (msg_sender env) > 0
        then Some (Revert ''AC: No refund available'')
      else if \<not> fst (call_value env (msg_sender env) (pendingRefunds s (msg_sender env))
                     (s\<lparr>locked := True,
                        pendingRefunds := (pendingRefunds s)(msg_sender env := 0)\<rparr>))
        then Some (Revert ''AC: Withdrawal failed'')
      else None)"
  by (auto simp: outcome_def withdrawRefund_def noReentrancy_def Let_def
        split: prod.splits)

text \<open>
  C8. For a recipient whose acceptance of a transfer does not depend on the pause flag,
  \<^verbatim>\<open>claimVerificationTimeout\<close>, \<^verbatim>\<open>claimDisputeTimeout\<close> and \<^verbatim>\<open>withdrawRefund\<close> succeed, or
  fail with the same error, whatever the value of \<^verbatim>\<open>paused\<close>: none of them carries
  \<^verbatim>\<open>whenNotPaused\<close>, so they stay available while the contract is paused.
\<close>

theorem timeout_and_withdraw_ignore_pause:
  assumes "\<forall>to amount st b. fst (recipient env to amount (st\<lparr>paused := b\<rparr>))
             = fst (recipient env to amount st)"
  shows "outcome (claimVerificationTimeout env requestId (s\<lparr>paused := b\<rparr>))
           = outcome (claimVerificationTimeout env requestId s)
       \<and> outcome (claimDisputeTimeout env workId' disputeId' (s\<lparr>paused := b\<rparr>))
           = outcome (claimDisputeTimeout env workId' disputeId' s)
       \<and> outcome (withdrawRefund env (s\<lparr>paused := b\<rparr>))
           = outcome (withdrawRefund env s)"
proof -
  note cv = call_value_paused [OF assms]
  have upd: "\<And>x. s\<lparr>paused := b, locked := True, verificationRequests := x\<rparr>
      = s\<lparr>locked := True, verificationRequests := x\<rparr>\<lparr>paused := b\<rparr>"
    "\<And>x. s\<lparr>paused := b, locked := True, disputes := x\<rparr>
      = s\<lparr>locked := True, disputes := x\<rparr>\<lparr>paused := b\<rparr>"
    "\<And>x. s\<lparr>paused := b, locked := True, pendingRefunds := x\<rparr>
      = s\<lparr>locked := True, pendingRefunds := x\<rparr>\<lparr>paused := b\<rparr>"
    by (cases s, simp)+
  show ?thesis
    by (simp add: outcome_claimVerificationTimeout outcome_claimDisputeTimeout
          outcome_withdrawRefund Let_def upd cv)
qed

theorem timeout_and_withdraw_ignore_pause_witness:
  "(\<forall>to amount st b. fst (recipient (demo_env bob 4601) to amount (st\<lparr>paused := b\<rparr>))
       = fst (recipient (demo_env bob 4601) to amount st))
   \<and> paused (st_requested\<lparr>paused := True\<rparr>)
   \<and> outcome (claimVerificationTimeout (demo_env bob 4601) 1 st_requested) = None
   \<and> outcome (claimVerificationTimeout (demo_env bob 4601) 1 (st_requested\<lparr>paused := True\<rparr>))
       = None
   \<and> outcome (withdrawRefund (demo_env bob 4601) (st_requested\<lparr>paused := True\<rparr>))
       = Some (Revert ''AC: No refund available'')"
proof -
  have h: "\<forall>to amount st b. fst (recipient (demo_env bob 4601) to amount (st\<lparr>paused := b\<rparr>))
       = fst (recipient (demo_env bob 4601) to amount st)"
    by (simp add: demo_env_def)
  have ok: "outcome (claimVerificationTimeout (demo_env bob 4601) 1 st_requested) = None"
    and nb: "outcome (withdrawRefund (demo_env bob 4601) st_requested)
       = Some (Revert ''AC: No refund available'')"
    by (simp_all add: outcome_claimVerificationTimeout outcome_withdrawRefund call_value_def
          VERIFICATION_TIMEOUT_def st_requested_def scenario_defs)
  from timeout_and_withdraw_ignore_pause
      [OF h, where requestId = 1 and s = st_requested and b = True]
  show ?thesis using h ok nb by simp
qed

section \<open>What is credited to escrow\<close>











section \<open>Registration payments\<close>



end
